theory Spec2Isabelle
  imports Main
begin

section \<open>The LinkedIn OIDC provider (selfservice/strategy/oidc/provider\_linkedin.go)\<close>

text \<open>
  The provider is a struct of two fields, read by five methods. The methods call into
  libraries (context, tracing, the retrying HTTP client with the OAuth2 transport under it,
  encoding/json, herodot); these are modelled as far as the methods depend on them, what
  the upstream answers is data of the model, and what the calls do is recorded as a list of
  events. Every method takes the world (the receiver object and the events so far) and
  returns its result with the world after the call.
\<close>

subsection \<open>JSON values and the decoding of the profile\<close>

text \<open>
  A JSON value as encoding/json sees it. Numbers keep their literal text. Object members
  are kept in the order of the text, duplicates included.
\<close>

datatype json =
    JNull
  | JBool bool
  | JNumber string
  | JString string
  | JArray "json list"
  | JObject "(string \<times> json) list"

text \<open>
  A response body is a JSON value, or bytes that are not one (a syntax error, an empty or
  truncated body); of those bytes the model keeps the message with which \<open>Decoder.Decode\<close>
  rejects them.
\<close>

datatype body =
    NotJSON string
  | JSON json

text \<open>
  The two failures of \<open>Decoder.Decode\<close>: the body is not a JSON value (with the message
  of the decoder), or a JSON value of the wrong kind meets a Go field (\<open>UnmarshalTypeError\<close>
  with the kind of the JSON value and the path of the field).
\<close>

datatype json_error =
    SyntaxError string
  | UnmarshalTypeError string string

fun json_kind :: "json \<Rightarrow> string" where
  "json_kind JNull = ''null''"
| "json_kind (JBool b) = ''bool''"
| "json_kind (JNumber n) = ''number''"
| "json_kind (JString s) = ''string''"
| "json_kind (JArray xs) = ''array''"
| "json_kind (JObject kvs) = ''object''"

text \<open>
  encoding/json matches an object key with a field's name exactly or, failing that,
  without regard to case. The tags of the profile are lower-case ASCII and pairwise
  different, so both steps are one comparison of the folded bytes. (The Unicode folds of
  the library, the Kelvin sign and the long s, are outside this byte-wise comparison.)
\<close>

definition foldByte :: "char \<Rightarrow> char" where
  "foldByte c =
     (let n = (of_char c :: nat)
      in if 97 \<le> n \<and> n \<le> 122 then char_of (n - 32) else c)"

definition equalFold :: "string \<Rightarrow> string \<Rightarrow> bool" where
  "equalFold a b = (map foldByte a = map foldByte b)"

text \<open>
  \<^verbatim>\<open>
  type LinkedInProfile struct {
      LocalizedLastName  string `json:"family_name"`
      LocalizedFirstName string `json:"given_name"`
      ProfilePicture     string `json:"picture"`
      EmailAddress       string `json:"email"`
      EmailVerified      bool   `json:"email_verified"`
      ID                 string `json:"sub"`
      Locale             *struct {
          Lanuguage string `json:"language"`
      } `json:"locale,omitempty"`
  }
  \<close>
  The pointer \<open>Locale\<close> is an option: \<open>None\<close> is nil.
\<close>

record LinkedInLocale =
  Lanuguage :: string

record LinkedInProfile =
  LocalizedLastName :: string
  LocalizedFirstName :: string
  ProfilePicture :: string
  EmailAddress :: string
  EmailVerified :: bool
  ID :: string
  Locale :: "LinkedInLocale option"

text \<open>The zero value of \<open>var result LinkedInProfile\<close>.\<close>

definition zero_LinkedInProfile :: LinkedInProfile where
  "zero_LinkedInProfile =
     \<lparr>LocalizedLastName = '''', LocalizedFirstName = '''', ProfilePicture = '''',
      EmailAddress = '''', EmailVerified = False, ID = '''', Locale = None\<rparr>"

text \<open>
  Storing one JSON value in a field of kind string: a JSON string is stored, null leaves
  the field as it is, every other kind is a type error. A field of kind bool takes the
  literals true and false, and null, and nothing else: the tag of \<open>EmailVerified\<close> has no
  \<open>,string\<close> option.
\<close>

fun store_string :: "string \<Rightarrow> json \<Rightarrow> string \<Rightarrow> json_error + string" where
  "store_string field (JString s) cur = Inr s"
| "store_string field JNull cur = Inr cur"
| "store_string field v cur = Inl (UnmarshalTypeError (json_kind v) field)"

fun store_bool :: "string \<Rightarrow> json \<Rightarrow> bool \<Rightarrow> json_error + bool" where
  "store_bool field (JBool b) cur = Inr b"
| "store_bool field JNull cur = Inr cur"
| "store_bool field v cur = Inl (UnmarshalTypeError (json_kind v) field)"

text \<open>
  The decoder goes on after a type error and reports the first one; \<open>Profile\<close> drops the
  partly filled value when \<open>fetch\<close> fails, so the model stops at the first type error.
\<close>

fun decode_locale :: "(string \<times> json) list \<Rightarrow> LinkedInLocale \<Rightarrow> json_error + LinkedInLocale" where
  "decode_locale [] loc = Inr loc"
| "decode_locale ((k, v) # kvs) loc =
     (if equalFold k ''language'' then
        (case store_string ''locale.language'' v (Lanuguage loc) of
           Inl e \<Rightarrow> Inl e
         | Inr s \<Rightarrow> decode_locale kvs (loc\<lparr>Lanuguage := s\<rparr>))
      else decode_locale kvs loc)"

text \<open>
  A pointer to a struct: null sets it to nil, an object is decoded into the struct it
  points to (a fresh zero struct when it is nil), every other kind is a type error.
\<close>

fun store_locale :: "json \<Rightarrow> LinkedInLocale option \<Rightarrow> json_error + LinkedInLocale option" where
  "store_locale JNull cur = Inr None"
| "store_locale (JObject kvs) cur =
     (case decode_locale kvs (case cur of None \<Rightarrow> \<lparr>Lanuguage = ''''\<rparr> | Some loc \<Rightarrow> loc) of
        Inl e \<Rightarrow> Inl e
      | Inr loc \<Rightarrow> Inr (Some loc))"
| "store_locale v cur = Inl (UnmarshalTypeError (json_kind v) ''locale'')"

fun decode_profile :: "(string \<times> json) list \<Rightarrow> LinkedInProfile \<Rightarrow> json_error + LinkedInProfile" where
  "decode_profile [] p = Inr p"
| "decode_profile ((k, v) # kvs) p =
     (if equalFold k ''family_name'' then
        (case store_string ''family_name'' v (LocalizedLastName p) of
           Inl e \<Rightarrow> Inl e
         | Inr s \<Rightarrow> decode_profile kvs (p\<lparr>LocalizedLastName := s\<rparr>))
      else if equalFold k ''given_name'' then
        (case store_string ''given_name'' v (LocalizedFirstName p) of
           Inl e \<Rightarrow> Inl e
         | Inr s \<Rightarrow> decode_profile kvs (p\<lparr>LocalizedFirstName := s\<rparr>))
      else if equalFold k ''picture'' then
        (case store_string ''picture'' v (ProfilePicture p) of
           Inl e \<Rightarrow> Inl e
         | Inr s \<Rightarrow> decode_profile kvs (p\<lparr>ProfilePicture := s\<rparr>))
      else if equalFold k ''email'' then
        (case store_string ''email'' v (EmailAddress p) of
           Inl e \<Rightarrow> Inl e
         | Inr s \<Rightarrow> decode_profile kvs (p\<lparr>EmailAddress := s\<rparr>))
      else if equalFold k ''email_verified'' then
        (case store_bool ''email_verified'' v (EmailVerified p) of
           Inl e \<Rightarrow> Inl e
         | Inr b \<Rightarrow> decode_profile kvs (p\<lparr>EmailVerified := b\<rparr>))
      else if equalFold k ''sub'' then
        (case store_string ''sub'' v (ID p) of
           Inl e \<Rightarrow> Inl e
         | Inr s \<Rightarrow> decode_profile kvs (p\<lparr>ID := s\<rparr>))
      else if equalFold k ''locale'' then
        (case store_locale v (Locale p) of
           Inl e \<Rightarrow> Inl e
         | Inr l \<Rightarrow> decode_profile kvs (p\<lparr>Locale := l\<rparr>))
      else decode_profile kvs p)"

text \<open>
  \<open>json.NewDecoder(res.Body).Decode(&result)\<close> for a destination of type
  \<open>*LinkedInProfile\<close>. A top-level null
  leaves the destination as it is and is no error; keys that match no field are skipped.
\<close>

fun Decode_LinkedInProfile :: "LinkedInProfile \<Rightarrow> body \<Rightarrow> json_error + LinkedInProfile" where
  "Decode_LinkedInProfile p (NotJSON msg) = Inl (SyntaxError msg)"
| "Decode_LinkedInProfile p (JSON JNull) = Inr p"
| "Decode_LinkedInProfile p (JSON (JObject kvs)) = decode_profile kvs p"
| "Decode_LinkedInProfile p (JSON v) = Inl (UnmarshalTypeError (json_kind v) '''')"

text \<open>
  The text of a decoding error, \<open>err.Error()\<close>. For a type error encoding/json names the
  kind of the JSON value, the struct and the path of the field, and the Go type of the
  field: \<open>json: cannot unmarshal string into Go struct field LinkedInProfile.email_verified
  of type bool\<close>. The struct of \<open>locale.language\<close> is the anonymous one, which has no name;
  without a field the destination itself is named.
\<close>

definition go_struct_of_field :: "string \<Rightarrow> string" where
  "go_struct_of_field f = (if f = ''locale.language'' then '''' else ''LinkedInProfile'')"

definition go_type_of_field :: "string \<Rightarrow> string" where
  "go_type_of_field f =
     (if f = ''email_verified'' then ''bool''
      else if f = ''locale'' then
        ''struct { Lanuguage string '' @ [CHR 0x22] @ ''json:'' @ [CHR 0x5C, CHR 0x22] @
        ''language'' @ [CHR 0x5C, CHR 0x22, CHR 0x22] @ '' }''
      else ''string'')"

fun json_error_text :: "json_error \<Rightarrow> string" where
  "json_error_text (SyntaxError msg) = msg"
| "json_error_text (UnmarshalTypeError v f) =
     (if f = '''' then
        ''json: cannot unmarshal '' @ v @ '' into Go value of type oidc.LinkedInProfile''
      else
        ''json: cannot unmarshal '' @ v @ '' into Go struct field '' @
        go_struct_of_field f @ ''.'' @ f @ '' of type '' @ go_type_of_field f)"

subsection \<open>Errors\<close>

text \<open>
  A \<open>herodot.DefaultError\<close>: code, status, the message that is its \<open>Error()\<close> text, and the
  reason. \<open>WithReasonf\<close> sets the reason of a copy.
\<close>

datatype DefaultError =
    DefaultError (CodeField: nat) (StatusField: string) (ErrorField: string) (ReasonField: string)

definition ErrInternalServerError :: DefaultError where
  "ErrInternalServerError =
     DefaultError 500 ''Internal Server Error''
       ''An internal server error occurred, please contact the system administrator''
       ''''"

definition ErrUpstreamError :: DefaultError where
  "ErrUpstreamError =
     DefaultError 502 ''Bad Gateway''
       ''An upstream server encountered an error or returned a malformed or unexpected response.''
       ''''"

definition WithReasonf :: "DefaultError \<Rightarrow> string \<Rightarrow> DefaultError" where
  "WithReasonf e r = DefaultError (CodeField e) (StatusField e) (ErrorField e) r"

text \<open>
  Errors are values. \<open>RequestError\<close> and \<open>TransportError\<close> are errors of net/http and of the
  retrying client, kept with their text. \<open>UpstreamError\<close> is the error of the package for a
  response that is not a success, with the status (see \<open>logUpstreamError\<close>). \<open>WithStack\<close> is
  \<open>errors.WithStack\<close> of github.com/pkg/errors: the same error with a stack trace.
\<close>

datatype error =
    RequestError string
  | TransportError string
  | JSONError json_error
  | UpstreamError nat
  | WithStack error
  | Herodot DefaultError

text \<open>
  \<open>err.Error()\<close>, which is what \<open>"%s"\<close> formats. A stack trace adds nothing to the text. The
  text of a herodot error is the message of its class, not its reason. Modelled from the
  spec: the upstream error of the package is a herodot error of the upstream class with the
  status in its reason, so its text is the message of that class and has nothing of the
  response in it.
\<close>

fun Error_str :: "error \<Rightarrow> string" where
  "Error_str (RequestError msg) = msg"
| "Error_str (TransportError msg) = msg"
| "Error_str (JSONError e) = json_error_text e"
| "Error_str (UpstreamError status) = ErrorField ErrUpstreamError"
| "Error_str (WithStack e) = Error_str e"
| "Error_str (Herodot d) = ErrorField d"

text \<open>The reason of a returned error, as its receiver reads it.\<close>

fun Reason :: "error \<Rightarrow> string option" where
  "Reason (WithStack e) = Reason e"
| "Reason (Herodot d) = Some (ReasonField d)"
| "Reason e = None"

text \<open>
  A Go call that can panic: \<open>Panic\<close> is the nil pointer dereference, the only panic this
  file can raise by itself.
\<close>

datatype 'a go = Return 'a | Panic

subsection \<open>Contexts, requests, responses and the retrying client\<close>

text \<open>
  A context is the incoming one or one derived from it: by starting a span, or by
  \<open>httpx.SetOAuth2\<close>, which binds the HTTP client.
\<close>

datatype Context =
    Incoming nat
  | WithSpan string Context
  | WithHTTPClient Context

text \<open>
  An \<open>oauth2.Token\<close>; \<open>Expiry\<close> is in seconds, \<open>None\<close> the zero time of a token that does not
  expire. \<open>Token.Valid\<close>: the access token is not empty and the token has not expired, ten
  seconds before its expiry counting as expired. (The pointer \<open>exchange\<close> is taken to point
  to a token; a nil one is not valid either, and is refused as an empty one is.)
\<close>

record Token =
  AccessToken :: string
  TokenType :: string
  RefreshToken :: string
  Expiry :: "int option"

definition expired :: "Token \<Rightarrow> int \<Rightarrow> bool" where
  "expired t now = (case Expiry t of None \<Rightarrow> False | Some e \<Rightarrow> e - 10 < now)"

definition Valid :: "Token \<Rightarrow> int \<Rightarrow> bool" where
  "Valid t now = (AccessToken t \<noteq> '''' \<and> \<not> expired t now)"

record request =
  Method :: string
  URL :: string
  Ctx :: Context
  Authorization :: "string option"

record response =
  StatusCode :: nat
  Body :: body

text \<open>
  A round trip that brings no response fails with an error of net/http, which the retry
  policy takes for recoverable, or for permanent (too many redirects, an unsupported
  scheme, an invalid header, a certificate that is not trusted). The text kept is that of
  the error under the \<open>*url.Error\<close>, which puts the method and the URL before it.
\<close>

datatype net_error =
    Recoverable string
  | Permanent string

text \<open>
  The \<open>*retryablehttp.Client\<close> of the registry, with what it talks to. \<open>RoundTrip i req\<close> is
  what the transport under it brings back at attempt \<open>i\<close> (counted from 0) for the request
  as sent; \<open>RetryMax\<close> is the bound on the retries; \<open>GiveUp n last\<close> is the text of the error
  the client returns when it stops after \<open>n\<close> attempts with the outcome \<open>last\<close> (the wording
  differs between versions of the library and is taken as given). \<open>Bearer\<close> is the token of
  the OAuth2 transport, \<open>None\<close> before \<open>httpx.SetOAuth2\<close>; \<open>Refresh rt\<close> is what a grant of
  the refresh token \<open>rt\<close> at the token endpoint gives, a token (which keeps \<open>rt\<close> when the
  endpoint sends no new refresh token) or the text of an error; \<open>Now\<close> is the time at which
  the transport looks at the token, the same at every attempt of one call. The client has
  no \<open>ErrorHandler\<close>, and a context is not cancelled during the call.
\<close>

record client =
  RoundTrip :: "nat \<Rightarrow> request \<Rightarrow> net_error + response"
  RetryMax :: nat
  GiveUp :: "nat \<Rightarrow> net_error + response \<Rightarrow> string"
  Bearer :: "Token option"
  Refresh :: "string \<Rightarrow> string + Token"
  Now :: int

text \<open>
  The token source of the OAuth2 transport (\<open>oauth2.ReuseTokenSource\<close> over the refresher
  of the configuration): its state is the token it holds and the refresh token of the
  refresher. A valid token is handed out as it is. Otherwise the token is refreshed: without
  a refresh token that is an error, and the transport sends nothing; with one, the token
  endpoint is asked, and its token is kept, with its refresh token.
\<close>

definition token_source :: "client \<Rightarrow> Token \<times> string \<Rightarrow> (string + Token) \<times> (Token \<times> string)" where
  "token_source c st =
     (case st of (t, rt) \<Rightarrow>
        if Valid t (Now c) then (Inr t, (t, rt))
        else if rt = '''' then
          (Inl ''oauth2: token expired and refresh token is not set'', (t, rt))
        else
          (case Refresh c rt of
             Inl msg \<Rightarrow> (Inl msg, (t, rt))
           | Inr t' \<Rightarrow> (Inr t', (t', RefreshToken t'))))"

text \<open>
  One attempt of the client: \<open>HTTPClient.Do\<close>. Without a token the request goes out as it
  is. With one, the transport asks its source; an error of the source is the error of the
  round trip (net/http puts the method and the URL before its text), and nothing is sent;
  else the request goes out with the access token.
\<close>

definition attempt ::
    "client \<Rightarrow> request \<Rightarrow> nat \<Rightarrow> (Token \<times> string) option
       \<Rightarrow> (net_error + response) \<times> (Token \<times> string) option" where
  "attempt c req i st =
     (case st of
        None \<Rightarrow> (RoundTrip c i req, None)
      | Some ts \<Rightarrow>
          (case token_source c ts of
             (Inl msg, ts') \<Rightarrow> (Inl (Recoverable msg), Some ts')
           | (Inr t, ts') \<Rightarrow>
               (RoundTrip c i (req\<lparr>Authorization := Some (AccessToken t)\<rparr>), Some ts')))"

text \<open>
  \<open>retryablehttp.DefaultRetryPolicy\<close>: a recoverable error is retried, a permanent one is
  not; of the responses, 429 and those of status 0 or in the 500 range other than 501 are
  retried.
\<close>

definition retried_status :: "nat \<Rightarrow> bool" where
  "retried_status status = (status = 429 \<or> status = 0 \<or> (500 \<le> status \<and> status \<noteq> 501))"

fun shouldRetry :: "net_error + response \<Rightarrow> bool" where
  "shouldRetry (Inl (Recoverable msg)) = True"
| "shouldRetry (Inl (Permanent msg)) = False"
| "shouldRetry (Inr res) = retried_status (StatusCode res)"

text \<open>
  The loop of \<open>Client.Do\<close>, from attempt \<open>i\<close> with \<open>remain\<close> retries left: attempt, stop when
  the policy does not ask for a retry or none is left, else wait and go on. It returns the
  number of attempts made and the last outcome.
\<close>

fun retry_loop ::
    "client \<Rightarrow> request \<Rightarrow> nat \<Rightarrow> nat \<Rightarrow> (Token \<times> string) option \<Rightarrow> nat \<times> (net_error + response)" where
  "retry_loop c req 0 i st = (Suc i, fst (attempt c req i st))"
| "retry_loop c req (Suc remain) i st =
     (case attempt c req i st of
        (out, st') \<Rightarrow>
          if shouldRetry out then retry_loop c req remain (Suc i) st' else (Suc i, out))"

text \<open>
  \<open>client.Do(req)\<close> as a whole: the number of attempts, and the response when the last
  attempt brought one that is not to be retried; in every other case the error of the
  client, and no response.
\<close>

definition Send :: "client \<Rightarrow> request \<Rightarrow> nat \<times> (error + response)" where
  "Send c req =
     (case retry_loop c req (RetryMax c) 0
             (map_option (\<lambda>t. (t, RefreshToken t)) (Bearer c)) of
        (n, Inr res) \<Rightarrow>
          if shouldRetry (Inr res) then (n, Inl (TransportError (GiveUp c n (Inr res))))
          else (n, Inr res)
      | (n, Inl e) \<Rightarrow> (n, Inl (TransportError (GiveUp c n (Inl e)))))"

text \<open>
  \<open>retryablehttp.NewRequestWithContext(ctx, http.MethodGet, url, nil)\<close> fails when the
  URL does not parse. Of the checks of net/url the model keeps the first, the one for an
  ASCII control character, and of the text of its error the part after the quoted URL;
  the only caller of \<open>fetch\<close> passes the constant \<open>ProfileUrl\<close>, which parses.
\<close>

definition containsCTLByte :: "string \<Rightarrow> bool" where
  "containsCTLByte s = list_ex (\<lambda>c. (of_char c :: nat) < 32 \<or> (of_char c :: nat) = 127) s"

definition NewRequestWithContext :: "Context \<Rightarrow> string \<Rightarrow> string \<Rightarrow> error + request" where
  "NewRequestWithContext ctx method url =
     (if containsCTLByte url then
        Inl (RequestError ''net/url: invalid control character in URL'')
      else Inr \<lparr>Method = method, URL = url, Ctx = ctx, Authorization = None\<rparr>)"

subsection \<open>Configuration, dependencies, and the provider\<close>

text \<open>
  Modelled from the spec: the struct \<open>Configuration\<close> and its method \<open>Redir\<close> are declared
  elsewhere in the package. The record has the fields this file reads (client ID, client
  secret, scope list); \<open>Redir\<close>, which computes the redirect URL from the base URL, is
  carried as a function.
\<close>

record Configuration =
  ClientID :: string
  ClientSecret :: string
  Scope :: "string list"
  Redir :: "string \<Rightarrow> string"

text \<open>
  Modelled from the spec: the interface \<open>Dependencies\<close> is declared elsewhere in the
  package. Of the registry the methods use the base URL of the redirect
  (\<open>Config().OIDCRedirectURIBase(ctx)\<close>), the HTTP client factory (\<open>HTTPClient(ctx)\<close>), the
  tracer and the logger. The first two are fields; the spans of the tracer are events of
  the world, and what the logger writes is not modelled.
\<close>

record Dependencies =
  OIDCRedirectURIBase :: "Context \<Rightarrow> string"
  HTTPClient :: "Context \<Rightarrow> client"

text \<open>
  \<^verbatim>\<open>
  type ProviderLinkedIn struct {
      config *Configuration
      reg    Dependencies
  }
  \<close>
\<close>

record ProviderLinkedIn =
  config :: Configuration
  reg :: Dependencies

datatype event =
    SpanStart string
  | SpanEnd string "error option"
  | ClientDo request nat
  | JSONDecode
  | BodyClose

record world =
  self :: ProviderLinkedIn
  events :: "event list"

definition emit :: "event \<Rightarrow> world \<Rightarrow> world" where
  "emit e w = w\<lparr>events := events w @ [e]\<rparr>"

definition NewProviderLinkedIn :: "Configuration \<Rightarrow> Dependencies \<Rightarrow> ProviderLinkedIn" where
  "NewProviderLinkedIn c r = \<lparr>config = c, reg = r\<rparr>"

definition ProfileUrl :: string where
  "ProfileUrl = ''https://api.linkedin.com/v2/userinfo''"

definition IntrospectionURL :: string where
  "IntrospectionURL = ''https://www.linkedin.com/oauth/v2/introspectToken''"

subsection \<open>OAuth2 settings\<close>

datatype AuthStyle = AuthStyleAutoDetect | AuthStyleInParams | AuthStyleInHeader

record Endpoint =
  AuthURL :: string
  TokenURL :: string
  EndpointAuthStyle :: AuthStyle

record oauth2_Config =
  ClientID :: string
  ClientSecret :: string
  Endpoint :: Endpoint
  Scopes :: "string list"
  RedirectURL :: string

text \<open>\<open>linkedin.Endpoint\<close> of golang.org/x/oauth2/linkedin.\<close>

definition linkedin_Endpoint :: Endpoint where
  "linkedin_Endpoint =
     \<lparr>AuthURL = ''https://www.linkedin.com/oauth/v2/authorization'',
      TokenURL = ''https://www.linkedin.com/oauth/v2/accessToken'',
      EndpointAuthStyle = AuthStyleInParams\<rparr>"

datatype AuthCodeOption = SetAuthURLParam string string

text \<open>
  \<^verbatim>\<open>
  func (l *ProviderLinkedIn) Config() *Configuration {
      return l.config
  }
  \<close>
\<close>

definition Config :: "world \<Rightarrow> Configuration \<times> world" where
  "Config w = (config (self w), w)"

text \<open>
  \<^verbatim>\<open>
  func (l *ProviderLinkedIn) oauth2(ctx context.Context) *oauth2.Config {
      return &oauth2.Config{
          ClientID:     l.config.ClientID,
          ClientSecret: l.config.ClientSecret,
          Endpoint:     linkedin.Endpoint,
          Scopes:       l.config.Scope,
          RedirectURL:  l.config.Redir(l.reg.Config().OIDCRedirectURIBase(ctx)),
      }
  }

  func (l *ProviderLinkedIn) OAuth2(ctx context.Context) (*oauth2.Config, error) {
      return l.oauth2(ctx), nil
  }
  \<close>
\<close>

definition oauth2 :: "Context \<Rightarrow> world \<Rightarrow> oauth2_Config \<times> world" where
  "oauth2 ctx w =
     (\<lparr>oauth2_Config.ClientID = Configuration.ClientID (config (self w)),
       oauth2_Config.ClientSecret = Configuration.ClientSecret (config (self w)),
       Endpoint = linkedin_Endpoint,
       Scopes = Scope (config (self w)),
       RedirectURL = Redir (config (self w)) (OIDCRedirectURIBase (reg (self w)) ctx)\<rparr>, w)"

definition OAuth2 :: "Context \<Rightarrow> world \<Rightarrow> (error + oauth2_Config) \<times> world" where
  "OAuth2 ctx w = (case oauth2 ctx w of (c, w') \<Rightarrow> (Inr c, w'))"

text \<open>
  \<^verbatim>\<open>
  func (l *ProviderLinkedIn) AuthCodeURLOptions(r ider) []oauth2.AuthCodeOption {
      return []oauth2.AuthCodeOption{}
  }
  \<close>
\<close>

definition AuthCodeURLOptions :: "'r \<Rightarrow> world \<Rightarrow> AuthCodeOption list \<times> world" where
  "AuthCodeURLOptions r w = ([], w)"

subsection \<open>The fetch\<close>

text \<open>
  \<open>l.reg.Tracer(ctx).Tracer().Start(ctx, name)\<close> opens a span and returns the context that
  carries it. \<open>otelx.End(span, &err)\<close>, deferred, records the error the function returns
  (if any) on the span and ends it.
\<close>

definition Start :: "Context \<Rightarrow> string \<Rightarrow> world \<Rightarrow> Context \<times> world" where
  "Start ctx name w = (WithSpan name ctx, emit (SpanStart name) w)"

definition otelx_End :: "string \<Rightarrow> error option \<Rightarrow> world \<Rightarrow> world" where
  "otelx_End name err w = emit (SpanEnd name err) w"

text \<open>
  \<open>client.Do(req)\<close> in \<open>fetch\<close>: the call is one event, with the request handed to the
  client and the number of attempts the client made inside it.
\<close>

definition Do :: "client \<Rightarrow> request \<Rightarrow> world \<Rightarrow> (error + response) \<times> world" where
  "Do c req w = (case Send c req of (n, r) \<Rightarrow> (r, emit (ClientDo req n) w))"

text \<open>
  Modelled from the spec: the helper \<open>logUpstreamError(logger, res)\<close> is defined elsewhere
  in the package. The spec has it classify a non-2xx response as an upstream error, with
  the status attached, and let a success through. (Another sentence of the spec treats
  every status other than 200 as an upstream error; the two agree on 200 and on every
  status outside 200..299, the only ones the theorems below speak of.)
\<close>

definition logUpstreamError :: "response \<Rightarrow> error option" where
  "logUpstreamError res =
     (if 200 \<le> StatusCode res \<and> StatusCode res < 300 then None
      else Some (UpstreamError (StatusCode res)))"

definition fetch_span :: string where
  "fetch_span = ''selfservice.strategy.oidc.ProviderLinkedIn.fetch''"

definition Claims_span :: string where
  "Claims_span = ''selfservice.strategy.oidc.ProviderLinkedIn.Claims''"

fun err_of :: "error + 'a \<Rightarrow> error option" where
  "err_of (Inl e) = Some e"
| "err_of (Inr v) = None"

text \<open>
  \<^verbatim>\<open>
  func (l *ProviderLinkedIn) fetch(ctx context.Context, client *retryablehttp.Client,
          url string, result interface{}) (err error) {
      ctx, span := l.reg.Tracer(ctx).Tracer().Start(ctx, "selfservice.strategy.oidc.ProviderLinkedIn.fetch")
      defer otelx.End(span, &err)

      req, err := retryablehttp.NewRequestWithContext(ctx, http.MethodGet, url, nil)
      if err != nil {
          return errors.WithStack(err)
      }

      res, err := client.Do(req)
      if err != nil {
          return errors.WithStack(err)
      }

      defer res.Body.Close()
      if err := logUpstreamError(l.reg.Logger(), res); err != nil {
          return err
      }

      if err := json.NewDecoder(res.Body).Decode(result); err != nil {
          return errors.WithStack(err)
      }

      return nil
  }
  \<close>
  The destination \<open>result\<close> is the decoder of its shape: \<open>decode\<close> maps the body to the
  value stored in the destination, or to the error of \<open>Decode\<close>. The two deferred calls run
  last in, first out: the body is closed, then the span is ended with the error returned.
  So the function is written in three layers: \<open>fetch_response\<close> is the code after
  \<open>defer res.Body.Close()\<close>, \<open>fetch_body\<close> the code after \<open>defer otelx.End(span, &err)\<close>
  with the closing of the body where a response was received, and \<open>fetch\<close> the whole, with
  the span around it.
\<close>

definition fetch_response ::
    "(body \<Rightarrow> json_error + 'a) \<Rightarrow> response \<Rightarrow> world \<Rightarrow> (error + 'a) \<times> world" where
  "fetch_response decode res w =
     (case logUpstreamError res of
        Some err \<Rightarrow> (Inl err, w)
      | None \<Rightarrow>
          (case decode (Body res) of
             Inl err \<Rightarrow> (Inl (WithStack (JSONError err)), emit JSONDecode w)
           | Inr v \<Rightarrow> (Inr v, emit JSONDecode w)))"

definition fetch_body ::
    "Context \<Rightarrow> client \<Rightarrow> string \<Rightarrow> (body \<Rightarrow> json_error + 'a) \<Rightarrow> world
       \<Rightarrow> (error + 'a) \<times> world" where
  "fetch_body ctx c url decode w =
     (case NewRequestWithContext ctx ''GET'' url of
        Inl err \<Rightarrow> (Inl (WithStack err), w)
      | Inr req \<Rightarrow>
          (case Do c req w of
             (Inl err, w1) \<Rightarrow> (Inl (WithStack err), w1)
           | (Inr res, w1) \<Rightarrow>
               (case fetch_response decode res w1 of
                  (r, w2) \<Rightarrow> (r, emit BodyClose w2))))"

definition fetch ::
    "Context \<Rightarrow> client \<Rightarrow> string \<Rightarrow> (body \<Rightarrow> json_error + 'a) \<Rightarrow> world
       \<Rightarrow> (error + 'a) \<times> world" where
  "fetch ctx c url decode w =
     (case Start ctx fetch_span w of
        (ctx1, w1) \<Rightarrow>
          (case fetch_body ctx1 c url decode w1 of
             (r, w2) \<Rightarrow> (r, otelx_End fetch_span (err_of r) w2)))"

text \<open>
  \<^verbatim>\<open>
  func (l *ProviderLinkedIn) Profile(ctx context.Context, client *retryablehttp.Client) (*LinkedInProfile, error) {
      var result LinkedInProfile

      if err := l.fetch(ctx, client, ProfileUrl, &result); err != nil {
          return nil, errors.WithStack(err)
      }

      return &result, nil
  }
  \<close>
\<close>

definition Profile :: "Context \<Rightarrow> client \<Rightarrow> world \<Rightarrow> (error + LinkedInProfile) \<times> world" where
  "Profile ctx c w =
     (case fetch ctx c ProfileUrl (Decode_LinkedInProfile zero_LinkedInProfile) w of
        (Inl err, w1) \<Rightarrow> (Inl (WithStack err), w1)
      | (Inr result, w1) \<Rightarrow> (Inr result, w1))"

text \<open>
  \<^verbatim>\<open>
  func (l *ProviderLinkedIn) ProfileLocale(profile *LinkedInProfile) string {
      if profile.Locale == nil {
          return ""
      }
      return profile.Locale.Lanuguage
  }
  \<close>
  Both pointers are options, and reading a field through a nil pointer panics. The method
  does not touch the receiver.
\<close>

definition deref :: "'a option \<Rightarrow> 'a go" where
  "deref p = (case p of None \<Rightarrow> Panic | Some v \<Rightarrow> Return v)"

definition ProfileLocale :: "LinkedInProfile option \<Rightarrow> string go" where
  "ProfileLocale profile =
     (case deref profile of
        Panic \<Rightarrow> Panic
      | Return p \<Rightarrow>
          (if Locale p = None then Return ''''
           else (case deref (Locale p) of
                   Panic \<Rightarrow> Panic
                 | Return loc \<Rightarrow> Return (Lanuguage loc))))"

subsection \<open>Claims\<close>

text \<open>
  Modelled from the spec: the struct \<open>Claims\<close> is declared elsewhere in the package. The
  record has the fields the spec lists, which are the fields this file sets.
\<close>

record Claims =
  Subject :: string
  Issuer :: string
  Email :: string
  EmailVerified :: bool
  GivenName :: string
  LastName :: string
  Picture :: string
  Locale :: string

text \<open>
  Modelled from the spec: \<open>x.ConvertibleBoolean\<close> is declared elsewhere in the repository.
  Here it is applied to a Go \<open>bool\<close>; the spec has the native boolean true normalise to
  true and false to false.
\<close>

definition ConvertibleBoolean :: "bool \<Rightarrow> bool" where
  "ConvertibleBoolean b = b"

text \<open>
  \<open>httpx.SetOAuth2(ctx, client, config, token)\<close> puts the OAuth2 transport of the
  configuration, with the token, under the retrying client, and binds the context. The
  transport checks and, when it must, refreshes the token at every round trip (see
  \<open>attempt\<close>); the token endpoint of the configuration is the \<open>Refresh\<close> of the client.
\<close>

definition SetOAuth2 :: "Context \<Rightarrow> client \<Rightarrow> oauth2_Config \<Rightarrow> Token \<Rightarrow> Context \<times> client" where
  "SetOAuth2 ctx c conf t = (WithHTTPClient ctx, c\<lparr>Bearer := Some t\<rparr>)"

text \<open>
  \<^verbatim>\<open>
  func (l *ProviderLinkedIn) Claims(ctx context.Context, exchange *oauth2.Token, query url.Values) (_ *Claims, err error) {
      ctx, span := l.reg.Tracer(ctx).Tracer().Start(ctx, "selfservice.strategy.oidc.ProviderLinkedIn.Claims")
      defer otelx.End(span, &err)

      o, err := l.OAuth2(ctx)
      if err != nil {
          return nil, errors.WithStack(herodot.ErrInternalServerError.WithReasonf("%s", err))
      }

      ctx, client := httpx.SetOAuth2(ctx, l.reg.HTTPClient(ctx), o, exchange)
      profile, err := l.Profile(ctx, client)
      if err != nil {
          return nil, errors.WithStack(herodot.ErrInternalServerError.WithReasonf("%s", err))
      }

      claims := &Claims{
          Subject:       profile.ID,
          Issuer:        "https://login.linkedin.com/",
          Email:         profile.EmailAddress,
          GivenName:     profile.LocalizedFirstName,
          LastName:      profile.LocalizedLastName,
          Picture:       profile.ProfilePicture,
          EmailVerified: x.ConvertibleBoolean(profile.EmailVerified),
          Locale:        l.ProfileLocale(profile),
      }

      return claims, nil
  }
  \<close>
  \<open>internal err\<close> is \<open>errors.WithStack(herodot.ErrInternalServerError.WithReasonf("%s", err))\<close>,
  \<open>make_claims\<close> the struct literal, \<open>Claims_body\<close> the code after the deferred
  \<open>otelx.End\<close>, and \<open>Claims\<close> the whole, with the span around it. The query is not read.
\<close>

definition internal :: "error \<Rightarrow> error" where
  "internal err = WithStack (Herodot (WithReasonf ErrInternalServerError (Error_str err)))"

definition make_claims :: "LinkedInProfile \<Rightarrow> Claims go" where
  "make_claims profile =
     (case ProfileLocale (Some profile) of
        Panic \<Rightarrow> Panic
      | Return loc \<Rightarrow>
          Return \<lparr>Subject = ID profile,
                  Issuer = ''https://login.linkedin.com/'',
                  Email = EmailAddress profile,
                  EmailVerified = ConvertibleBoolean (LinkedInProfile.EmailVerified profile),
                  GivenName = LocalizedFirstName profile,
                  LastName = LocalizedLastName profile,
                  Picture = ProfilePicture profile,
                  Locale = loc\<rparr>)"

definition Claims_body ::
    "Context \<Rightarrow> Token \<Rightarrow> (string \<times> string list) list \<Rightarrow> world \<Rightarrow> (error + Claims) go \<times> world" where
  "Claims_body ctx exchange query w =
     (case OAuth2 ctx w of
        (Inl err, w1) \<Rightarrow> (Return (Inl (internal err)), w1)
      | (Inr oc, w1) \<Rightarrow>
          (case SetOAuth2 ctx (HTTPClient (reg (self w1)) ctx) oc exchange of
             (ctx2, c) \<Rightarrow>
               (case Profile ctx2 c w1 of
                  (Inl err, w2) \<Rightarrow> (Return (Inl (internal err)), w2)
                | (Inr profile, w2) \<Rightarrow>
                    (case make_claims profile of
                       Panic \<Rightarrow> (Panic, w2)
                     | Return claims \<Rightarrow> (Return (Inr claims), w2)))))"

fun returned_err :: "(error + 'a) go \<Rightarrow> error option" where
  "returned_err (Return r) = err_of r"
| "returned_err Panic = None"

definition Claims ::
    "Context \<Rightarrow> Token \<Rightarrow> (string \<times> string list) list \<Rightarrow> world \<Rightarrow> (error + Claims) go \<times> world" where
  "Claims ctx exchange query w =
     (case Start ctx Claims_span w of
        (ctx1, w1) \<Rightarrow>
          (case Claims_body ctx1 exchange query w1 of
             (r, w2) \<Rightarrow> (r, otelx_End Claims_span (returned_err r) w2)))"

subsection \<open>What one call of Claims asks of the upstream\<close>

text \<open>
  The request \<open>Claims\<close> hands to the client: a GET of the profile URL, under the contexts of
  the two spans and of the bound client; the transport adds the access token. The client
  is the one of the registry, asked for under the span of \<open>Claims\<close> and bound to the token
  of the exchange. The answer is the outcome of its \<open>client.Do\<close>.
\<close>

definition profile_request :: "Context \<Rightarrow> Token \<Rightarrow> request" where
  "profile_request ctx exchange =
     \<lparr>Method = ''GET'', URL = ProfileUrl,
      Ctx = WithSpan fetch_span (WithHTTPClient (WithSpan Claims_span ctx)),
      Authorization = None\<rparr>"

definition profile_client :: "Context \<Rightarrow> Token \<Rightarrow> world \<Rightarrow> client" where
  "profile_client ctx exchange w =
     (HTTPClient (reg (self w)) (WithSpan Claims_span ctx))\<lparr>Bearer := Some exchange\<rparr>"

definition upstream_answer :: "Context \<Rightarrow> Token \<Rightarrow> world \<Rightarrow> nat \<times> (error + response)" where
  "upstream_answer ctx exchange w =
     Send (profile_client ctx exchange w) (profile_request ctx exchange)"





subsection \<open>Concrete inputs\<close>

text \<open>Decimal digits, for the text of the example client.\<close>

function decimal :: "nat \<Rightarrow> string" where
  "decimal n =
     (if n < 10 then [char_of (48 + n)]
      else decimal (n div 10) @ [char_of (48 + n mod 10)])"
  by pat_completeness auto
termination
  by (relation "measure id") auto

declare decimal.simps [simp del]

text \<open>
  \<open>http.StatusText\<close> for the statuses of the examples, and the text of the \<open>*url.Error\<close>
  in which net/http wraps the error of a GET of the profile URL.
\<close>

definition StatusText :: "nat \<Rightarrow> string" where
  "StatusText status =
     (if status = 500 then ''Internal Server Error''
      else if status = 502 then ''Bad Gateway''
      else if status = 503 then ''Service Unavailable''
      else if status = 504 then ''Gateway Timeout''
      else '''')"

definition url_error_text :: "string \<Rightarrow> string" where
  "url_error_text msg =
     ''Get '' @ [CHR 0x22] @ ''https://api.linkedin.com/v2/userinfo'' @ [CHR 0x22] @ '': '' @ msg"

text \<open>
  The wording of the retrying client for the error it gives up with, in the version that
  writes \<open>giving up after %d attempt(s)\<close>: method and URL, the number of attempts, and
  after a colon the last error. For a response of status 0 or of the 500 range the policy
  supplies that error, \<open>unexpected HTTP status\<close> with the status line (here the code and
  its standard text); for a 429 it supplies none.
\<close>

definition example_give_up :: "nat \<Rightarrow> net_error + response \<Rightarrow> string" where
  "example_give_up n out =
     ''GET https://api.linkedin.com/v2/userinfo giving up after '' @ decimal n @
     '' attempt(s)'' @
     (case out of
        Inl (Recoverable msg) \<Rightarrow> '': '' @ url_error_text msg
      | Inl (Permanent msg) \<Rightarrow> '': '' @ url_error_text msg
      | Inr res \<Rightarrow>
          if StatusCode res = 429 then ''''
          else '': unexpected HTTP status '' @ decimal (StatusCode res) @ '' '' @
               StatusText (StatusCode res))"

text \<open>
  A client with four retries whose transport brings back \<open>up i\<close> at attempt \<open>i\<close>, a
  configuration, the provider built from them, and a token that is valid.
\<close>

definition example_client :: "(nat \<Rightarrow> net_error + response) \<Rightarrow> client" where
  "example_client up =
     \<lparr>RoundTrip = (\<lambda>i req. up i), RetryMax = 4, GiveUp = example_give_up, Bearer = None,
      Refresh = (\<lambda>rt. Inl ''oauth2: cannot fetch token: 400 Bad Request''),
      Now = 1700000000\<rparr>"

definition example_config :: Configuration where
  "example_config =
     \<lparr>Configuration.ClientID = ''linkedin-client'',
      Configuration.ClientSecret = ''s3cret'',
      Scope = [''openid'', ''profile'', ''email''],
      Redir = (\<lambda>base. base @ ''/self-service/methods/oidc/callback/linkedin'')\<rparr>"

definition world_of_upstream :: "(nat \<Rightarrow> net_error + response) \<Rightarrow> world" where
  "world_of_upstream up =
     \<lparr>self = NewProviderLinkedIn example_config
        \<lparr>OIDCRedirectURIBase = (\<lambda>ctx. ''https://id.example.com''),
         HTTPClient = (\<lambda>ctx. example_client up)\<rparr>,
      events = []\<rparr>"

text \<open>
  The world in which the endpoint is reached at attempt \<open>n\<close> and answers \<open>r\<close>, the attempts
  before it failing on the way.
\<close>

definition example_world :: "nat \<Rightarrow> net_error + response \<Rightarrow> world" where
  "example_world n r =
     world_of_upstream
       (\<lambda>i. if Suc i < n then Inl (Recoverable ''read tcp: connection reset by peer'') else r)"

definition example_token :: Token where
  "example_token =
     \<lparr>AccessToken = ''at-1'', TokenType = ''Bearer'', RefreshToken = '''', Expiry = None\<rparr>"

text \<open>
  The payload of the profile endpoint with the value \<open>v\<close> under \<open>email_verified\<close>, and
  payloads without some of its members.
\<close>

definition example_payload :: "json \<Rightarrow> json" where
  "example_payload v =
     JObject [(''sub'', JString ''abc123''), (''email'', JString ''a@example.com''),
       (''email_verified'', v), (''given_name'', JString ''Ann''),
       (''family_name'', JString ''Lee''), (''picture'', JString ''http://img''),
       (''locale'', JObject [(''language'', JString ''en-US'')])]"

definition payload_without_locale :: json where
  "payload_without_locale =
     JObject [(''sub'', JString ''abc123''), (''email'', JString ''a@example.com''),
       (''email_verified'', JBool True), (''given_name'', JString ''Ann''),
       (''family_name'', JString ''Lee''), (''picture'', JString ''http://img'')]"

definition ok :: "json \<Rightarrow> 'e + response" where
  "ok v = Inr \<lparr>StatusCode = 200, Body = JSON v\<rparr>"

definition status_only :: "nat \<Rightarrow> 'e + response" where
  "status_only status = Inr \<lparr>StatusCode = status, Body = NotJSON ''EOF''\<rparr>"

section \<open>The retrying client\<close>

text \<open>With a valid token the transport sends the request with the access token.\<close>

lemma attempt_valid:
  "Valid t (Now c) \<Longrightarrow>
     attempt c req i (Some (t, rt)) =
       (RoundTrip c i (req\<lparr>Authorization := Some (AccessToken t)\<rparr>), Some (t, rt))"
  by (simp add: attempt_def token_source_def)


text \<open>
  While every attempt brings an outcome that is to be retried, the loop uses all its
  retries.
\<close>

lemma retry_loop_keeps_failing:
  assumes "Valid t (Now c)"
    and "\<forall>j. i \<le> j \<and> j \<le> i + k \<longrightarrow>
           shouldRetry (RoundTrip c j (req\<lparr>Authorization := Some (AccessToken t)\<rparr>))"
  shows "retry_loop c req k i (Some (t, rt)) =
           (Suc (i + k), RoundTrip c (i + k) (req\<lparr>Authorization := Some (AccessToken t)\<rparr>))"
  using assms(2)
proof (induction k arbitrary: i)
  case 0
  show ?case by (simp add: attempt_valid [OF assms(1)])
next
  case (Suc k)
  have r: "shouldRetry (RoundTrip c i (req\<lparr>Authorization := Some (AccessToken t)\<rparr>))"
    using Suc.prems by simp
  have "\<forall>j. Suc i \<le> j \<and> j \<le> Suc i + k \<longrightarrow>
          shouldRetry (RoundTrip c j (req\<lparr>Authorization := Some (AccessToken t)\<rparr>))"
    using Suc.prems by simp
  then show ?case
    using Suc.IH [of "Suc i"] r by (simp add: attempt_valid [OF assms(1)])
qed

lemma Send_keeps_failing:
  assumes "Bearer c = Some t"
    and "Valid t (Now c)"
    and "\<forall>j \<le> RetryMax c.
           shouldRetry (RoundTrip c j (req\<lparr>Authorization := Some (AccessToken t)\<rparr>))"
  shows "Send c req =
           (Suc (RetryMax c),
            Inl (TransportError (GiveUp c (Suc (RetryMax c))
              (RoundTrip c (RetryMax c) (req\<lparr>Authorization := Some (AccessToken t)\<rparr>)))))"
proof -
  have "retry_loop c req (RetryMax c) 0 (Some (t, RefreshToken t)) =
          (Suc (0 + RetryMax c),
           RoundTrip c (0 + RetryMax c) (req\<lparr>Authorization := Some (AccessToken t)\<rparr>))"
    using assms(3) by (intro retry_loop_keeps_failing [OF assms(2)]) simp
  moreover have "shouldRetry
      (RoundTrip c (RetryMax c) (req\<lparr>Authorization := Some (AccessToken t)\<rparr>))"
    using assms(3) by simp
  ultimately show ?thesis
    using assms(1) by (auto simp: Send_def split: sum.splits)
qed


text \<open>
  With a valid token, a first attempt that brings a response not to be retried ends the
  call.
\<close>

lemma Send_first_attempt:
  assumes "Bearer c = Some t"
    and "Valid t (Now c)"
    and "RoundTrip c 0 (req\<lparr>Authorization := Some (AccessToken t)\<rparr>) = Inr res"
    and "\<not> retried_status (StatusCode res)"
  shows "Send c req = (1, Inr res)"
proof -
  have "retry_loop c req (RetryMax c) 0 (Some (t, RefreshToken t)) = (1, Inr res)"
    using assms(3,4) by (cases "RetryMax c") (simp_all add: attempt_valid [OF assms(2)])
  then show ?thesis
    using assms(1,4) by (simp add: Send_def)
qed

text \<open>
  A token that is not valid and has no refresh token is refused at every attempt: nothing
  is sent, and the client gives up with the error of the token source.
\<close>

lemma attempt_refused:
  "\<not> Valid t (Now c) \<Longrightarrow>
     attempt c req i (Some (t, '''')) =
       (Inl (Recoverable ''oauth2: token expired and refresh token is not set''),
        Some (t, ''''))"
  by (simp add: attempt_def token_source_def)

lemma retry_loop_refused:
  assumes "\<not> Valid t (Now c)"
  shows "retry_loop c req k i (Some (t, '''')) =
           (Suc (i + k), Inl (Recoverable ''oauth2: token expired and refresh token is not set''))"
proof (induction k arbitrary: i)
  case 0
  show ?case by (simp add: attempt_refused [OF assms])
next
  case (Suc k)
  show ?case
    using Suc [of "Suc i"] by (simp add: attempt_refused [OF assms])
qed

lemma Send_refused:
  assumes "Bearer c = Some t"
    and "\<not> Valid t (Now c)"
    and "RefreshToken t = ''''"
  shows "Send c req =
           (Suc (RetryMax c),
            Inl (TransportError (GiveUp c (Suc (RetryMax c))
              (Inl (Recoverable ''oauth2: token expired and refresh token is not set'')))))"
  using retry_loop_refused [OF assms(2), of req "RetryMax c" 0] assms(1,3)
  by (simp add: Send_def)

section \<open>The paths through fetch and Claims\<close>

text \<open>The profile URL parses, so building the request never fails for it.\<close>

lemma ProfileUrl_request:
  "NewRequestWithContext ctx ''GET'' ProfileUrl =
     Inr \<lparr>Method = ''GET'', URL = ProfileUrl, Ctx = ctx, Authorization = None\<rparr>"
  by (simp add: NewRequestWithContext_def containsCTLByte_def ProfileUrl_def)

lemma OAuth2_eq:
  "OAuth2 ctx w =
     (Inr \<lparr>oauth2_Config.ClientID = Configuration.ClientID (config (self w)),
           oauth2_Config.ClientSecret = Configuration.ClientSecret (config (self w)),
           Endpoint = linkedin_Endpoint,
           Scopes = Scope (config (self w)),
           RedirectURL = Redir (config (self w)) (OIDCRedirectURIBase (reg (self w)) ctx)\<rparr>, w)"
  by (simp add: OAuth2_def oauth2_def)

lemma logUpstreamError_200:
  "StatusCode res = 200 \<Longrightarrow> logUpstreamError res = None"
  by (simp add: logUpstreamError_def)

lemma logUpstreamError_non_2xx:
  "\<not> (200 \<le> StatusCode res \<and> StatusCode res < 300) \<Longrightarrow>
     logUpstreamError res = Some (UpstreamError (StatusCode res))"
  by (simp add: logUpstreamError_def)

text \<open>The four ways \<open>fetch\<close> of the profile URL ends, by what the client answers.\<close>

lemma fetch_transport_error:
  assumes "Send c \<lparr>Method = ''GET'', URL = ProfileUrl, Ctx = WithSpan fetch_span ctx,
             Authorization = None\<rparr> = (n, Inl e)"
  shows "fetch ctx c ProfileUrl decode w =
           (Inl (WithStack e),
            w\<lparr>events := events w @
               [SpanStart fetch_span,
                ClientDo \<lparr>Method = ''GET'', URL = ProfileUrl, Ctx = WithSpan fetch_span ctx,
                          Authorization = None\<rparr> n,
                SpanEnd fetch_span (Some (WithStack e))]\<rparr>)"
  using assms
  by (simp add: fetch_def fetch_body_def Start_def ProfileUrl_request Do_def emit_def otelx_End_def)

lemma fetch_upstream_error:
  assumes "Send c \<lparr>Method = ''GET'', URL = ProfileUrl, Ctx = WithSpan fetch_span ctx,
             Authorization = None\<rparr> = (n, Inr res)"
    and "logUpstreamError res = Some err"
  shows "fetch ctx c ProfileUrl decode w =
           (Inl err,
            w\<lparr>events := events w @
               [SpanStart fetch_span,
                ClientDo \<lparr>Method = ''GET'', URL = ProfileUrl, Ctx = WithSpan fetch_span ctx,
                          Authorization = None\<rparr> n,
                BodyClose,
                SpanEnd fetch_span (Some err)]\<rparr>)"
  using assms
  by (simp add: fetch_def fetch_body_def fetch_response_def Start_def
      ProfileUrl_request Do_def emit_def otelx_End_def)

lemma fetch_decode_error:
  assumes "Send c \<lparr>Method = ''GET'', URL = ProfileUrl, Ctx = WithSpan fetch_span ctx,
             Authorization = None\<rparr> = (n, Inr res)"
    and "logUpstreamError res = None"
    and "decode (Body res) = Inl je"
  shows "fetch ctx c ProfileUrl decode w =
           (Inl (WithStack (JSONError je)),
            w\<lparr>events := events w @
               [SpanStart fetch_span,
                ClientDo \<lparr>Method = ''GET'', URL = ProfileUrl, Ctx = WithSpan fetch_span ctx,
                          Authorization = None\<rparr> n,
                JSONDecode, BodyClose,
                SpanEnd fetch_span (Some (WithStack (JSONError je)))]\<rparr>)"
  using assms
  by (simp add: fetch_def fetch_body_def fetch_response_def Start_def
      ProfileUrl_request Do_def emit_def otelx_End_def)

lemma fetch_decoded:
  assumes "Send c \<lparr>Method = ''GET'', URL = ProfileUrl, Ctx = WithSpan fetch_span ctx,
             Authorization = None\<rparr> = (n, Inr res)"
    and "logUpstreamError res = None"
    and "decode (Body res) = Inr v"
  shows "fetch ctx c ProfileUrl decode w =
           (Inr v,
            w\<lparr>events := events w @
               [SpanStart fetch_span,
                ClientDo \<lparr>Method = ''GET'', URL = ProfileUrl, Ctx = WithSpan fetch_span ctx,
                          Authorization = None\<rparr> n,
                JSONDecode, BodyClose,
                SpanEnd fetch_span None]\<rparr>)"
  using assms
  by (simp add: fetch_def fetch_body_def fetch_response_def Start_def
      ProfileUrl_request Do_def emit_def otelx_End_def)

text \<open>The mapping of a profile to claims never panics: the locale is read behind the nil check.\<close>

lemma make_claims_eq:
  "make_claims p =
     Return \<lparr>Subject = ID p, Issuer = ''https://login.linkedin.com/'', Email = EmailAddress p,
             EmailVerified = LinkedInProfile.EmailVerified p, GivenName = LocalizedFirstName p,
             LastName = LocalizedLastName p, Picture = ProfilePicture p,
             Locale = (case LinkedInProfile.Locale p of None \<Rightarrow> '''' | Some loc \<Rightarrow> Lanuguage loc)\<rparr>"
  by (simp add: make_claims_def ProfileLocale_def deref_def ConvertibleBoolean_def
      split: option.splits)

text \<open>The request \<open>Claims\<close> hands to the client it has bound to the token.\<close>

lemma Claims_sends:
  assumes "upstream_answer ctx tok w = a"
  shows "Send ((HTTPClient (reg (self w)) (WithSpan Claims_span ctx))\<lparr>Bearer := Some tok\<rparr>)
           \<lparr>Method = ''GET'', URL = ProfileUrl,
            Ctx = WithSpan fetch_span (WithHTTPClient (WithSpan Claims_span ctx)),
            Authorization = None\<rparr>
         = a"
  using assms by (simp add: upstream_answer_def profile_request_def profile_client_def)

text \<open>The four ways \<open>Claims\<close> ends, by what the client answers.\<close>

lemma Claims_transport_error:
  assumes "upstream_answer ctx tok w = (n, Inl e)"
  shows "Claims ctx tok q w =
           (Return (Inl (internal (WithStack (WithStack e)))),
            w\<lparr>events := events w @
               [SpanStart Claims_span, SpanStart fetch_span,
                ClientDo (profile_request ctx tok) n,
                SpanEnd fetch_span (Some (WithStack e)),
                SpanEnd Claims_span (Some (internal (WithStack (WithStack e))))]\<rparr>)"
  by (simp add: Claims_def Claims_body_def Start_def OAuth2_eq SetOAuth2_def Profile_def
      fetch_transport_error [OF Claims_sends [OF assms]] emit_def otelx_End_def
      profile_request_def)

lemma Claims_upstream_error:
  assumes "upstream_answer ctx tok w = (n, Inr res)"
    and "logUpstreamError res = Some err"
  shows "Claims ctx tok q w =
           (Return (Inl (internal (WithStack err))),
            w\<lparr>events := events w @
               [SpanStart Claims_span, SpanStart fetch_span,
                ClientDo (profile_request ctx tok) n,
                BodyClose,
                SpanEnd fetch_span (Some err),
                SpanEnd Claims_span (Some (internal (WithStack err)))]\<rparr>)"
  by (simp add: Claims_def Claims_body_def Start_def OAuth2_eq SetOAuth2_def Profile_def
      fetch_upstream_error [OF Claims_sends [OF assms(1)] assms(2)] emit_def otelx_End_def
      profile_request_def)

lemma Claims_decode_error:
  assumes "upstream_answer ctx tok w = (n, Inr res)"
    and "logUpstreamError res = None"
    and "Decode_LinkedInProfile zero_LinkedInProfile (Body res) = Inl je"
  shows "Claims ctx tok q w =
           (Return (Inl (internal (WithStack (WithStack (JSONError je))))),
            w\<lparr>events := events w @
               [SpanStart Claims_span, SpanStart fetch_span,
                ClientDo (profile_request ctx tok) n,
                JSONDecode, BodyClose,
                SpanEnd fetch_span (Some (WithStack (JSONError je))),
                SpanEnd Claims_span (Some (internal (WithStack (WithStack (JSONError je)))))]\<rparr>)"
  by (simp add: Claims_def Claims_body_def Start_def OAuth2_eq SetOAuth2_def Profile_def
      fetch_decode_error [where decode = "Decode_LinkedInProfile zero_LinkedInProfile",
        OF Claims_sends [OF assms(1)] assms(2) assms(3)]
      emit_def otelx_End_def profile_request_def)

lemma Claims_decoded:
  assumes "upstream_answer ctx tok w = (n, Inr res)"
    and "logUpstreamError res = None"
    and "Decode_LinkedInProfile zero_LinkedInProfile (Body res) = Inr p"
  shows "Claims ctx tok q w =
           (Return (Inr \<lparr>Subject = ID p, Issuer = ''https://login.linkedin.com/'',
              Email = EmailAddress p, EmailVerified = LinkedInProfile.EmailVerified p,
              GivenName = LocalizedFirstName p, LastName = LocalizedLastName p,
              Picture = ProfilePicture p,
              Locale = (case LinkedInProfile.Locale p of None \<Rightarrow> '''' | Some loc \<Rightarrow> Lanuguage loc)\<rparr>),
            w\<lparr>events := events w @
               [SpanStart Claims_span, SpanStart fetch_span,
                ClientDo (profile_request ctx tok) n,
                JSONDecode, BodyClose,
                SpanEnd fetch_span None,
                SpanEnd Claims_span None]\<rparr>)"
  by (simp add: Claims_def Claims_body_def Start_def OAuth2_eq SetOAuth2_def Profile_def
      fetch_decoded [where decode = "Decode_LinkedInProfile zero_LinkedInProfile",
        OF Claims_sends [OF assms(1)] assms(2) assms(3)]
      make_claims_eq emit_def otelx_End_def profile_request_def)

text \<open>The error \<open>Claims\<close> returns, written out.\<close>

lemma internal_eq:
  "internal err =
     WithStack (Herodot (DefaultError 500 ''Internal Server Error''
       ''An internal server error occurred, please contact the system administrator''
       (Error_str err)))"
  by (simp add: internal_def WithReasonf_def ErrInternalServerError_def)

text \<open>
  With a token that is not valid and has no refresh token, nothing is sent and \<open>Claims\<close>
  fails.
\<close>

lemma Claims_refused_token:
  assumes "\<not> Valid tok (Now (profile_client ctx tok w))"
    and "RefreshToken tok = ''''"
  shows "\<exists>e. fst (Claims ctx tok q w) = Return (Inl e) \<and>
             Reason e = Some (GiveUp (profile_client ctx tok w)
               (Suc (RetryMax (profile_client ctx tok w)))
               (Inl (Recoverable ''oauth2: token expired and refresh token is not set'')))"
proof -
  have b: "Bearer (profile_client ctx tok w) = Some tok"
    by (simp add: profile_client_def)
  have a: "upstream_answer ctx tok w =
      (Suc (RetryMax (profile_client ctx tok w)),
       Inl (TransportError (GiveUp (profile_client ctx tok w)
         (Suc (RetryMax (profile_client ctx tok w)))
         (Inl (Recoverable ''oauth2: token expired and refresh token is not set'')))))"
    unfolding upstream_answer_def by (rule Send_refused [OF b assms])
  show ?thesis
    using Claims_transport_error [where q = q, OF a] by (simp add: internal_eq)
qed

text \<open>No method writes to the receiver, whatever path it takes.\<close>

lemma self_emit: "self (emit e w) = self w"
  by (simp add: emit_def)

lemma self_Do: "self (snd (Do c req w)) = self w"
  by (simp add: Do_def self_emit split: prod.splits)

lemma self_fetch_response: "self (snd (fetch_response decode res w)) = self w"
  by (simp add: fetch_response_def self_emit split: option.splits sum.splits)

lemma self_fetch_body: "self (snd (fetch_body ctx c url decode w)) = self w"
proof (cases "NewRequestWithContext ctx ''GET'' url")
  case (Inl err)
  then show ?thesis by (simp add: fetch_body_def)
next
  case (Inr req)
  obtain r w1 where d: "Do c req w = (r, w1)" by (cases "Do c req w")
  have w1: "self w1 = self w" using self_Do [of c req w] d by simp
  show ?thesis
  proof (cases r)
    case (Inl err)
    then show ?thesis using Inr d w1 by (simp add: fetch_body_def)
  next
    case (Inr res)
    obtain r2 w2 where f: "fetch_response decode res w1 = (r2, w2)"
      by (cases "fetch_response decode res w1")
    have "self w2 = self w1" using self_fetch_response [of decode res w1] f by simp
    then show ?thesis
      using \<open>NewRequestWithContext ctx ''GET'' url = Inr req\<close> d Inr f w1
      by (simp add: fetch_body_def self_emit)
  qed
qed

lemma self_fetch: "self (snd (fetch ctx c url decode w)) = self w"
proof -
  obtain r w2 where b: "fetch_body (WithSpan fetch_span ctx) c url decode
      (emit (SpanStart fetch_span) w) = (r, w2)"
    by (cases "fetch_body (WithSpan fetch_span ctx) c url decode (emit (SpanStart fetch_span) w)")
  have "self w2 = self w"
    using self_fetch_body [of "WithSpan fetch_span ctx" c url decode
        "emit (SpanStart fetch_span) w"] b
    by (simp add: self_emit)
  then show ?thesis
    using b by (simp add: fetch_def Start_def otelx_End_def self_emit)
qed

lemma self_Profile: "self (snd (Profile ctx c w)) = self w"
proof -
  have "snd (Profile ctx c w) =
          snd (fetch ctx c ProfileUrl (Decode_LinkedInProfile zero_LinkedInProfile) w)"
    by (simp add: Profile_def split: prod.splits sum.splits)
  then show ?thesis by (simp add: self_fetch)
qed

lemma self_Claims: "self (snd (Claims ctx tok q w)) = self w"
proof -
  obtain r w2 where b: "Claims_body (WithSpan Claims_span ctx) tok q
      (emit (SpanStart Claims_span) w) = (r, w2)"
    by (cases "Claims_body (WithSpan Claims_span ctx) tok q (emit (SpanStart Claims_span) w)")
  have "self w2 = self (emit (SpanStart Claims_span) w)"
    using b self_Profile [of "WithHTTPClient (WithSpan Claims_span ctx)"
        "(HTTPClient (reg (self (emit (SpanStart Claims_span) w))) (WithSpan Claims_span ctx))
           \<lparr>Bearer := Some tok\<rparr>" "emit (SpanStart Claims_span) w"]
    by (auto simp: Claims_body_def OAuth2_eq SetOAuth2_def make_claims_eq
        split: prod.splits sum.splits)
  then show ?thesis
    using b by (simp add: Claims_def Start_def otelx_End_def self_emit)
qed



section \<open>The decoding of the member \<open>email_verified\<close>\<close>

lemma email_verified_key:
  assumes "equalFold k ''email_verified''"
  shows "\<not> equalFold k ''family_name''" and "\<not> equalFold k ''given_name''"
    and "\<not> equalFold k ''picture''" and "\<not> equalFold k ''email''"
  using assms by (simp_all add: equalFold_def foldByte_def)

text \<open>Decoding the members of an object one after the other.\<close>

lemma decode_profile_Cons:
  "decode_profile ((k, v) # kvs) p =
     (case decode_profile [(k, v)] p of Inl e \<Rightarrow> Inl e | Inr p' \<Rightarrow> decode_profile kvs p')"
  by (simp split: sum.splits)

lemma decode_profile_append:
  "decode_profile (xs @ ys) p =
     (case decode_profile xs p of Inl e \<Rightarrow> Inl e | Inr p' \<Rightarrow> decode_profile ys p')"
proof (induction xs arbitrary: p)
  case Nil
  show ?case by simp
next
  case (Cons kv xs)
  obtain k v where kv: "kv = (k, v)" by (cases kv)
  have l: "decode_profile ((kv # xs) @ ys) p =
      (case decode_profile [(k, v)] p of Inl e \<Rightarrow> Inl e | Inr p' \<Rightarrow> decode_profile (xs @ ys) p')"
    unfolding kv append_Cons by (rule decode_profile_Cons)
  have r: "decode_profile (kv # xs) p =
      (case decode_profile [(k, v)] p of Inl e \<Rightarrow> Inl e | Inr p' \<Rightarrow> decode_profile xs p')"
    unfolding kv by (rule decode_profile_Cons)
  show ?case
  proof (cases "decode_profile [(k, v)] p")
    case (Inl e)
    show ?thesis unfolding l r Inl by simp
  next
    case (Inr p1)
    show ?thesis unfolding l r Inr by (simp only: sum.case Cons.IH)
  qed
qed

text \<open>A member under another key leaves the field as it is.\<close>

lemma decode_profile_other_key:
  assumes "\<not> equalFold k ''email_verified''"
    and "decode_profile [(k, v)] p = Inr p'"
  shows "LinkedInProfile.EmailVerified p' = LinkedInProfile.EmailVerified p"
  using assms by (auto split: if_splits sum.splits)

lemma decode_profile_other_keys:
  assumes "list_all (\<lambda>kv. \<not> equalFold (fst kv) ''email_verified'') ys"
    and "decode_profile ys p = Inr p'"
  shows "LinkedInProfile.EmailVerified p' = LinkedInProfile.EmailVerified p"
  using assms
proof (induction ys arbitrary: p)
  case Nil
  then show ?case by simp
next
  case (Cons kv ys)
  obtain k v where kv: "kv = (k, v)" by (cases kv)
  have nk: "\<not> equalFold k ''email_verified''"
    using Cons.prems(1) kv by simp
  have rest: "list_all (\<lambda>kv. \<not> equalFold (fst kv) ''email_verified'') ys"
    using Cons.prems(1) by simp
  have s: "(case decode_profile [(k, v)] p of Inl e \<Rightarrow> Inl e
            | Inr p1 \<Rightarrow> decode_profile ys p1) = Inr p'"
    using Cons.prems(2) unfolding kv decode_profile_Cons [of k v ys p] .
  then obtain p1 where p1: "decode_profile [(k, v)] p = Inr p1"
    and r: "decode_profile ys p1 = Inr p'"
    by (cases "decode_profile [(k, v)] p") (simp_all only: sum.case sum.distinct)
  show ?case
    using Cons.IH [OF rest r] decode_profile_other_key [OF nk p1] by simp
qed

text \<open>The member itself: a boolean is stored, any other kind but null is a type error.\<close>

lemma decode_profile_email_verified:
  assumes "equalFold k ''email_verified''"
  shows "decode_profile [(k, v)] p =
           (case store_bool ''email_verified'' v (LinkedInProfile.EmailVerified p) of
              Inl e \<Rightarrow> Inl e
            | Inr b \<Rightarrow> Inr (p\<lparr>LinkedInProfile.EmailVerified := b\<rparr>))"
  using assms by (simp add: email_verified_key [OF assms] split: sum.splits)

lemma decode_profile_email_verified_bool:
  assumes "equalFold k ''email_verified''"
    and "list_all (\<lambda>kv. \<not> equalFold (fst kv) ''email_verified'') post"
    and "decode_profile (pre @ (k, JBool b) # post) p = Inr p'"
  shows "LinkedInProfile.EmailVerified p' = b"
proof -
  have s: "(case decode_profile pre p of Inl e \<Rightarrow> Inl e
            | Inr p1 \<Rightarrow> decode_profile ((k, JBool b) # post) p1) = Inr p'"
    using assms(3) unfolding decode_profile_append [of pre "(k, JBool b) # post" p] .
  then obtain p1 where p1: "decode_profile pre p = Inr p1"
    and r: "decode_profile ((k, JBool b) # post) p1 = Inr p'"
    by (cases "decode_profile pre p") (simp_all only: sum.case sum.distinct)
  have "decode_profile post (p1\<lparr>LinkedInProfile.EmailVerified := b\<rparr>) = Inr p'"
    using r unfolding decode_profile_Cons [of k "JBool b" post p1]
      decode_profile_email_verified [OF assms(1)]
    by simp
  then show ?thesis
    using decode_profile_other_keys [OF assms(2)] by fastforce
qed

lemma decode_profile_email_verified_other:
  assumes "equalFold k ''email_verified''"
    and "v \<noteq> JNull" and "\<forall>b. v \<noteq> JBool b"
  shows "\<exists>je. decode_profile (pre @ (k, v) # post) p = Inl je"
proof (cases "decode_profile pre p")
  case (Inl e)
  show ?thesis
    unfolding decode_profile_append [of pre "(k, v) # post" p] Inl by simp
next
  case (Inr p1)
  obtain je where "store_bool ''email_verified'' v (LinkedInProfile.EmailVerified p1) = Inl je"
    using assms(2,3) by (cases v) auto
  then show ?thesis
    unfolding decode_profile_append [of pre "(k, v) # post" p] Inr sum.case
      decode_profile_Cons [of k v post p1] decode_profile_email_verified [OF assms(1)]
    by simp
qed

section \<open>The concrete inputs\<close>

lemma example_token_valid: "Valid example_token now"
  by (simp add: Valid_def expired_def example_token_def)

lemma example_profile_client:
  "profile_client ctx tok (world_of_upstream up) = (example_client up)\<lparr>Bearer := Some tok\<rparr>"
  by (simp add: profile_client_def world_of_upstream_def NewProviderLinkedIn_def)

text \<open>An answer at the first attempt that is not to be retried is the outcome of the call.\<close>

lemma example_answer:
  assumes "\<not> retried_status (StatusCode res)"
  shows "upstream_answer ctx example_token (example_world (Suc 0) (Inr res)) = (Suc 0, Inr res)"
proof -
  let ?c = "(example_client (\<lambda>i. if Suc i < Suc 0
      then Inl (Recoverable ''read tcp: connection reset by peer'') else Inr res))
      \<lparr>Bearer := Some example_token\<rparr>"
  have "Send ?c (profile_request ctx example_token) = (1, Inr res)"
    by (rule Send_first_attempt [where t = example_token])
      (simp_all add: example_client_def example_token_valid assms)
  then show ?thesis
    by (simp add: upstream_answer_def example_world_def example_profile_client)
qed

lemma example_answer_ok:
  "upstream_answer ctx example_token (example_world (Suc 0) (ok v)) = (Suc 0, ok v)"
  unfolding ok_def by (rule example_answer) (simp add: retried_status_def)

text \<open>An answer that is to be retried is retried four times, and the client gives up.\<close>

lemma example_gives_up:
  assumes "shouldRetry r"
  shows "upstream_answer ctx example_token (example_world (Suc 0) r) =
           (5, Inl (TransportError (example_give_up 5 r)))"
proof -
  let ?c = "(example_client (\<lambda>i. if Suc i < Suc 0
      then Inl (Recoverable ''read tcp: connection reset by peer'') else r))
      \<lparr>Bearer := Some example_token\<rparr>"
  have "Send ?c (profile_request ctx example_token) =
      (Suc (RetryMax ?c), Inl (TransportError (GiveUp ?c (Suc (RetryMax ?c))
         (RoundTrip ?c (RetryMax ?c)
           ((profile_request ctx example_token)
              \<lparr>Authorization := Some (AccessToken example_token)\<rparr>)))))"
    by (rule Send_keeps_failing [where t = example_token])
      (simp_all add: example_client_def example_token_valid assms)
  then show ?thesis
    by (simp add: upstream_answer_def example_world_def example_profile_client
        example_client_def)
qed

lemma decimal_5: "decimal 5 = ''5''"
  by code_simp



lemma example_give_up_error:
  "example_give_up 5 (Inl (Recoverable msg)) =
     ''GET https://api.linkedin.com/v2/userinfo giving up after 5 attempt(s): Get '' @
     [CHR 0x22] @ ''https://api.linkedin.com/v2/userinfo'' @ [CHR 0x22] @ '': '' @ msg"
  by (simp add: example_give_up_def decimal_5 url_error_text_def)


lemma upstream_events: "events (world_of_upstream up) = []"
  by (simp add: world_of_upstream_def)

lemma decode_example_payload_bool:
  "Decode_LinkedInProfile zero_LinkedInProfile (JSON (example_payload (JBool b))) =
     Inr \<lparr>LocalizedLastName = ''Lee'', LocalizedFirstName = ''Ann'',
          ProfilePicture = ''http://img'', EmailAddress = ''a@example.com'',
          EmailVerified = b, ID = ''abc123'', Locale = Some \<lparr>Lanuguage = ''en-US''\<rparr>\<rparr>"
  by (simp add: example_payload_def zero_LinkedInProfile_def equalFold_def foldByte_def)

lemma decode_example_payload_other:
  assumes "store_bool ''email_verified'' v False = Inl je"
  shows "Decode_LinkedInProfile zero_LinkedInProfile (JSON (example_payload v)) = Inl je"
  using assms
  by (simp add: example_payload_def zero_LinkedInProfile_def equalFold_def foldByte_def)

lemma decode_payload_without_locale:
  "Decode_LinkedInProfile zero_LinkedInProfile (JSON payload_without_locale) =
     Inr \<lparr>LocalizedLastName = ''Lee'', LocalizedFirstName = ''Ann'',
          ProfilePicture = ''http://img'', EmailAddress = ''a@example.com'',
          EmailVerified = True, ID = ''abc123'', Locale = None\<rparr>"
  by (simp add: payload_without_locale_def zero_LinkedInProfile_def equalFold_def foldByte_def)

section \<open>The claims\<close>

text \<open>
  C1, as amended. When the profile endpoint answers HTTP 200 with the body
  \<open>{"sub":"abc123","email":"a@example.com","email_verified":true,"given_name":"Ann",
  "family_name":"Lee","picture":"http://img","locale":{"language":"en-US"}}\<close>, where
  \<open>email_verified\<close> is the JSON boolean, \<open>Claims\<close> returns without error the claims with
  Subject "abc123", Issuer "https://login.linkedin.com/", Email "a@example.com",
  EmailVerified true, GivenName "Ann", LastName "Lee", Picture "http://img" and Locale
  "en-US".
\<close>

theorem Claims_scenario_native_boolean:
  assumes "upstream_answer ctx tok w = (n, ok (example_payload (JBool True)))"
  shows "fst (Claims ctx tok q w) =
           Return (Inr \<lparr>Subject = ''abc123'', Issuer = ''https://login.linkedin.com/'',
             Email = ''a@example.com'', EmailVerified = True, GivenName = ''Ann'',
             LastName = ''Lee'', Picture = ''http://img'', Locale = ''en-US''\<rparr>)"
proof -
  have a: "upstream_answer ctx tok w =
      (n, Inr \<lparr>StatusCode = 200, Body = JSON (example_payload (JBool True))\<rparr>)"
    using assms by (simp add: ok_def)
  show ?thesis
    using Claims_decoded [where q = q, OF a] decode_example_payload_bool [of True]
    by (simp add: logUpstreamError_def)
qed

text \<open>The amended scenario at the example provider, answered at the first attempt.\<close>

theorem Claims_scenario_native_boolean_witness:
  "upstream_answer (Incoming 0) example_token
       (example_world 1 (ok (example_payload (JBool True)))) =
     (1, ok (example_payload (JBool True))) \<and>
   fst (Claims (Incoming 0) example_token []
         (example_world 1 (ok (example_payload (JBool True))))) =
     Return (Inr \<lparr>Subject = ''abc123'', Issuer = ''https://login.linkedin.com/'',
       Email = ''a@example.com'', EmailVerified = True, GivenName = ''Ann'',
       LastName = ''Lee'', Picture = ''http://img'', Locale = ''en-US''\<rparr>)"
  using Claims_scenario_native_boolean [where q = "[]", OF example_answer_ok]
  by (simp add: example_answer_ok)

text \<open>
  C1 as stated fails: with \<open>"email_verified":"true"\<close>, a JSON string, the body does not
  decode into the \<open>bool\<close> field, and \<open>Claims\<close> returns the internal server error, with the
  text of the decoding error as its reason.
\<close>

theorem Claims_scenario_string_true_fails:
  "fst (Claims (Incoming 0) example_token []
         (example_world 1 (ok (example_payload (JString ''true''))))) =
     Return (Inl (WithStack (Herodot (DefaultError 500 ''Internal Server Error''
       ''An internal server error occurred, please contact the system administrator''
       ''json: cannot unmarshal string into Go struct field LinkedInProfile.email_verified of type bool''))))"
proof -
  have a: "upstream_answer (Incoming 0) example_token
      (example_world (Suc 0) (ok (example_payload (JString ''true'')))) =
      (Suc 0, Inr \<lparr>StatusCode = 200, Body = JSON (example_payload (JString ''true''))\<rparr>)"
    using example_answer_ok [of "Incoming 0" "example_payload (JString ''true'')"]
    by (simp add: ok_def)
  have d: "Decode_LinkedInProfile zero_LinkedInProfile
      (Body \<lparr>StatusCode = 200, Body = JSON (example_payload (JString ''true''))\<rparr>) =
      Inl (UnmarshalTypeError ''string'' ''email_verified'')"
    by (simp add: decode_example_payload_other)
  show ?thesis
    using Claims_decode_error [where q = "[]", OF a _ d]
    by (simp add: logUpstreamError_def internal_eq go_struct_of_field_def go_type_of_field_def)
qed

text \<open>
  C2, as amended. For every HTTP 200 answer whose payload is an object with a member
  \<open>email_verified\<close>: when the value of the member is the native boolean true or false, no
  later member has the key, and the payload decodes, EmailVerified on the claims returned
  is true or false respectively, the other fields being those of the payload; when the
  value is of any other kind but null, the strings "true" and "false" and the numbers 1 and
  0 among them, the payload does not decode into the \<open>bool\<close> field, and \<open>Claims\<close> returns
  the internal server error and no claims.
\<close>

theorem EmailVerified_by_wire_encoding:
  assumes "upstream_answer ctx tok w = (n, Inr res)"
    and "StatusCode res = 200"
    and "Body res = JSON (JObject (pre @ (k, v) # post))"
    and "equalFold k ''email_verified''"
  shows "(\<forall>b p. v = JBool b \<and>
            list_all (\<lambda>kv. \<not> equalFold (fst kv) ''email_verified'') post \<and>
            Decode_LinkedInProfile zero_LinkedInProfile (Body res) = Inr p \<longrightarrow>
            fst (Claims ctx tok q w) =
              Return (Inr \<lparr>Subject = ID p, Issuer = ''https://login.linkedin.com/'',
                Email = EmailAddress p, EmailVerified = b,
                GivenName = LocalizedFirstName p, LastName = LocalizedLastName p,
                Picture = ProfilePicture p,
                Locale = (case LinkedInProfile.Locale p of
                            None \<Rightarrow> '''' | Some loc \<Rightarrow> Lanuguage loc)\<rparr>)) \<and>
         (v \<noteq> JNull \<and> (\<forall>b. v \<noteq> JBool b) \<longrightarrow>
            (\<exists>je. Decode_LinkedInProfile zero_LinkedInProfile (Body res) = Inl je \<and>
               fst (Claims ctx tok q w) =
                 Return (Inl (internal (WithStack (WithStack (JSONError je)))))))"
proof
  note l = logUpstreamError_200 [OF assms(2)]
  show "\<forall>b p. v = JBool b \<and>
            list_all (\<lambda>kv. \<not> equalFold (fst kv) ''email_verified'') post \<and>
            Decode_LinkedInProfile zero_LinkedInProfile (Body res) = Inr p \<longrightarrow>
            fst (Claims ctx tok q w) =
              Return (Inr \<lparr>Subject = ID p, Issuer = ''https://login.linkedin.com/'',
                Email = EmailAddress p, EmailVerified = b,
                GivenName = LocalizedFirstName p, LastName = LocalizedLastName p,
                Picture = ProfilePicture p,
                Locale = (case LinkedInProfile.Locale p of
                            None \<Rightarrow> '''' | Some loc \<Rightarrow> Lanuguage loc)\<rparr>)"
  proof (intro allI impI)
    fix b p
    assume h: "v = JBool b \<and>
      list_all (\<lambda>kv. \<not> equalFold (fst kv) ''email_verified'') post \<and>
      Decode_LinkedInProfile zero_LinkedInProfile (Body res) = Inr p"
    then have d: "decode_profile (pre @ (k, JBool b) # post) zero_LinkedInProfile = Inr p"
      using assms(3) by auto
    have e: "LinkedInProfile.EmailVerified p = b"
      using decode_profile_email_verified_bool [OF assms(4) _ d] h by simp
    show "fst (Claims ctx tok q w) =
              Return (Inr \<lparr>Subject = ID p, Issuer = ''https://login.linkedin.com/'',
                Email = EmailAddress p, EmailVerified = b,
                GivenName = LocalizedFirstName p, LastName = LocalizedLastName p,
                Picture = ProfilePicture p,
                Locale = (case LinkedInProfile.Locale p of
                            None \<Rightarrow> '''' | Some loc \<Rightarrow> Lanuguage loc)\<rparr>)"
      using Claims_decoded [where q = q, OF assms(1) l] h e by simp
  qed
next
  note l = logUpstreamError_200 [OF assms(2)]
  show "v \<noteq> JNull \<and> (\<forall>b. v \<noteq> JBool b) \<longrightarrow>
            (\<exists>je. Decode_LinkedInProfile zero_LinkedInProfile (Body res) = Inl je \<and>
               fst (Claims ctx tok q w) =
                 Return (Inl (internal (WithStack (WithStack (JSONError je))))))"
  proof
    assume h: "v \<noteq> JNull \<and> (\<forall>b. v \<noteq> JBool b)"
    obtain je where "decode_profile (pre @ (k, v) # post) zero_LinkedInProfile = Inl je"
      using decode_profile_email_verified_other [OF assms(4), of v pre post zero_LinkedInProfile] h
      by blast
    then have d: "Decode_LinkedInProfile zero_LinkedInProfile (Body res) = Inl je"
      using assms(3) by simp
    show "\<exists>je. Decode_LinkedInProfile zero_LinkedInProfile (Body res) = Inl je \<and>
               fst (Claims ctx tok q w) =
                 Return (Inl (internal (WithStack (WithStack (JSONError je)))))"
      using Claims_decode_error [where q = q, OF assms(1) l d] d by simp
  qed
qed

text \<open>
  The payload \<open>{"sub":"abc123","email_verified":true}\<close> and the payload
  \<open>{"sub":"abc123","email_verified":"true"}\<close> at the example provider.
\<close>

theorem EmailVerified_by_wire_encoding_witness:
  "upstream_answer (Incoming 0) example_token
       (example_world 1 (ok (JObject ([(''sub'', JString ''abc123'')] @
          (''email_verified'', JBool True) # [])))) =
     (1, Inr \<lparr>StatusCode = 200, Body = JSON (JObject ([(''sub'', JString ''abc123'')] @
          (''email_verified'', JBool True) # []))\<rparr>) \<and>
   equalFold ''email_verified'' ''email_verified'' \<and>
   list_all (\<lambda>kv. \<not> equalFold (fst kv) ''email_verified'') [] \<and>
   Decode_LinkedInProfile zero_LinkedInProfile
       (JSON (JObject ([(''sub'', JString ''abc123'')] @
          (''email_verified'', JBool True) # []))) =
     Inr \<lparr>LocalizedLastName = '''', LocalizedFirstName = '''', ProfilePicture = '''',
          EmailAddress = '''', EmailVerified = True, ID = ''abc123'', Locale = None\<rparr> \<and>
   fst (Claims (Incoming 0) example_token []
         (example_world 1 (ok (JObject ([(''sub'', JString ''abc123'')] @
            (''email_verified'', JBool True) # []))))) =
     Return (Inr \<lparr>Subject = ''abc123'', Issuer = ''https://login.linkedin.com/'',
       Email = '''', EmailVerified = True, GivenName = '''', LastName = '''',
       Picture = '''', Locale = ''''\<rparr>) \<and>
   JString ''true'' \<noteq> JNull \<and>
   (\<exists>je. fst (Claims (Incoming 0) example_token []
         (example_world 1 (ok (JObject ([(''sub'', JString ''abc123'')] @
            (''email_verified'', JString ''true'') # []))))) =
       Return (Inl (internal (WithStack (WithStack (JSONError je))))))"
proof -
  let ?pre = "[(''sub'', JString ''abc123'')]"
  let ?t = "JObject (?pre @ (''email_verified'', JBool True) # [])"
  let ?s = "JObject (?pre @ (''email_verified'', JString ''true'') # [])"
  let ?p = "\<lparr>LocalizedLastName = '''', LocalizedFirstName = '''', ProfilePicture = '''',
          EmailAddress = '''', EmailVerified = True, ID = ''abc123'', Locale = None\<rparr>"
  have k: "equalFold ''email_verified'' ''email_verified''"
    by (simp add: equalFold_def)
  have at: "upstream_answer (Incoming 0) example_token (example_world (Suc 0) (ok ?t)) =
      (Suc 0, Inr \<lparr>StatusCode = 200, Body = JSON ?t\<rparr>)"
    using example_answer_ok [of "Incoming 0" ?t] by (simp add: ok_def)
  have as: "upstream_answer (Incoming 0) example_token (example_world (Suc 0) (ok ?s)) =
      (Suc 0, Inr \<lparr>StatusCode = 200, Body = JSON ?s\<rparr>)"
    using example_answer_ok [of "Incoming 0" ?s] by (simp add: ok_def)
  have d: "Decode_LinkedInProfile zero_LinkedInProfile (JSON ?t) = Inr ?p"
    by (simp add: zero_LinkedInProfile_def equalFold_def foldByte_def)
  have 1: "fst (Claims (Incoming 0) example_token [] (example_world (Suc 0) (ok ?t))) =
      Return (Inr \<lparr>Subject = ''abc123'', Issuer = ''https://login.linkedin.com/'',
        Email = '''', EmailVerified = True, GivenName = '''', LastName = '''',
        Picture = '''', Locale = ''''\<rparr>)"
    using EmailVerified_by_wire_encoding [where q = "[]" and pre = ?pre and post = "[]"
        and v = "JBool True", OF at _ _ k, THEN conjunct1, rule_format, of True ?p] d
    by simp
  have 2: "\<exists>je. fst (Claims (Incoming 0) example_token [] (example_world (Suc 0) (ok ?s))) =
      Return (Inl (internal (WithStack (WithStack (JSONError je)))))"
    using EmailVerified_by_wire_encoding [where q = "[]" and pre = ?pre and post = "[]"
        and v = "JString ''true''", OF as _ _ k, THEN conjunct2]
    by auto
  show ?thesis
    using at k d 1 2 by (simp add: ok_def)
qed

text \<open>
  C2 as stated fails: with the number 1 under \<open>email_verified\<close> no claims are returned.
\<close>

theorem EmailVerified_number_one_fails:
  "fst (Claims (Incoming 0) example_token []
         (example_world 1 (ok (example_payload (JNumber ''1''))))) =
     Return (Inl (WithStack (Herodot (DefaultError 500 ''Internal Server Error''
       ''An internal server error occurred, please contact the system administrator''
       ''json: cannot unmarshal number into Go struct field LinkedInProfile.email_verified of type bool''))))"
proof -
  have a: "upstream_answer (Incoming 0) example_token
      (example_world (Suc 0) (ok (example_payload (JNumber ''1'')))) =
      (Suc 0, Inr \<lparr>StatusCode = 200, Body = JSON (example_payload (JNumber ''1''))\<rparr>)"
    using example_answer_ok [of "Incoming 0" "example_payload (JNumber ''1'')"]
    by (simp add: ok_def)
  have d: "Decode_LinkedInProfile zero_LinkedInProfile
      (Body \<lparr>StatusCode = 200, Body = JSON (example_payload (JNumber ''1''))\<rparr>) =
      Inl (UnmarshalTypeError ''number'' ''email_verified'')"
    by (simp add: decode_example_payload_other)
  show ?thesis
    using Claims_decode_error [where q = "[]", OF a _ d]
    by (simp add: logUpstreamError_def internal_eq go_struct_of_field_def go_type_of_field_def)
qed

text \<open>
  C3. For every profile whose \<open>Locale\<close> pointer is nil, \<open>ProfileLocale\<close> returns the empty
  string without a panic: the nil pointer is not dereferenced. So for every HTTP 200 answer
  whose payload decodes to such a profile, the Locale of the claims \<open>Claims\<close> returns is
  the empty string.
\<close>

theorem absent_locale_gives_empty_Locale:
  assumes "LinkedInProfile.Locale p = None"
  shows "ProfileLocale (Some p) = Return '''' \<and>
         (\<forall>ctx tok q w n res.
            upstream_answer ctx tok w = (n, Inr res) \<and> StatusCode res = 200 \<and>
            Decode_LinkedInProfile zero_LinkedInProfile (Body res) = Inr p \<longrightarrow>
            (\<exists>c. fst (Claims ctx tok q w) = Return (Inr c) \<and> Claims.Locale c = ''''))"
proof
  show "ProfileLocale (Some p) = Return ''''"
    using assms by (simp add: ProfileLocale_def deref_def)
next
  show "\<forall>ctx tok q w n res.
          upstream_answer ctx tok w = (n, Inr res) \<and> StatusCode res = 200 \<and>
          Decode_LinkedInProfile zero_LinkedInProfile (Body res) = Inr p \<longrightarrow>
          (\<exists>c. fst (Claims ctx tok q w) = Return (Inr c) \<and> Claims.Locale c = '''')"
  proof (intro allI impI)
    fix ctx tok q w n res
    assume h: "upstream_answer ctx tok w = (n, Inr res) \<and> StatusCode res = 200 \<and>
      Decode_LinkedInProfile zero_LinkedInProfile (Body res) = Inr p"
    then have l: "logUpstreamError res = None"
      by (simp add: logUpstreamError_200)
    show "\<exists>c. fst (Claims ctx tok q w) = Return (Inr c) \<and> Claims.Locale c = ''''"
      using Claims_decoded [where q = q, OF _ l] h assms by simp
  qed
qed

text \<open>A payload without the key \<open>locale\<close>, at the example provider.\<close>

theorem absent_locale_gives_empty_Locale_witness:
  "LinkedInProfile.Locale
     \<lparr>LocalizedLastName = ''Lee'', LocalizedFirstName = ''Ann'',
      ProfilePicture = ''http://img'', EmailAddress = ''a@example.com'',
      EmailVerified = True, ID = ''abc123'', Locale = None\<rparr> = None \<and>
   upstream_answer (Incoming 0) example_token (example_world 1 (ok payload_without_locale)) =
     (1, Inr \<lparr>StatusCode = 200, Body = JSON payload_without_locale\<rparr>) \<and>
   Decode_LinkedInProfile zero_LinkedInProfile (JSON payload_without_locale) =
     Inr \<lparr>LocalizedLastName = ''Lee'', LocalizedFirstName = ''Ann'',
          ProfilePicture = ''http://img'', EmailAddress = ''a@example.com'',
          EmailVerified = True, ID = ''abc123'', Locale = None\<rparr> \<and>
   ProfileLocale (Some
     \<lparr>LocalizedLastName = ''Lee'', LocalizedFirstName = ''Ann'',
      ProfilePicture = ''http://img'', EmailAddress = ''a@example.com'',
      EmailVerified = True, ID = ''abc123'', Locale = None\<rparr>) = Return '''' \<and>
   (\<exists>c. fst (Claims (Incoming 0) example_token []
           (example_world 1 (ok payload_without_locale))) = Return (Inr c) \<and>
        Claims.Locale c = '''')"
proof -
  let ?p = "\<lparr>LocalizedLastName = ''Lee'', LocalizedFirstName = ''Ann'',
      ProfilePicture = ''http://img'', EmailAddress = ''a@example.com'',
      EmailVerified = True, ID = ''abc123'', Locale = None\<rparr>"
  let ?res = "\<lparr>StatusCode = 200, Body = JSON payload_without_locale\<rparr>"
  have h: "LinkedInProfile.Locale ?p = None" by simp
  have a: "upstream_answer (Incoming 0) example_token
      (example_world (Suc 0) (ok payload_without_locale)) = (Suc 0, Inr ?res)"
    using example_answer_ok [of "Incoming 0" payload_without_locale] by (simp add: ok_def)
  have d: "Decode_LinkedInProfile zero_LinkedInProfile (Body ?res) = Inr ?p"
    by (simp add: decode_payload_without_locale)
  have s: "StatusCode ?res = 200" by simp
  note t = absent_locale_gives_empty_Locale [OF h]
  have 1: "ProfileLocale (Some ?p) = Return ''''"
    using t by (rule conjunct1)
  have 2: "\<exists>c. fst (Claims (Incoming 0) example_token []
           (example_world (Suc 0) (ok payload_without_locale))) = Return (Inr c) \<and>
        Claims.Locale c = ''''"
    using t a s d by blast
  show ?thesis
    using h a d 1 2 by simp
qed

text \<open>
  C7, as amended. For every valid token and every HTTP 200 profile answer whose body
  decodes, \<open>Claims\<close> returns claims whose Issuer is the constant
  "https://login.linkedin.com/", which is not empty, and whose Subject is the \<open>sub\<close> of the
  payload as decoded: not empty exactly when the payload carries a \<open>sub\<close> that is not empty.
  (A token that is not valid and has no refresh token is refused by the transport before
  anything is sent, and \<open>Claims\<close> fails: \<open>Claims_refused_token\<close>.)
\<close>

theorem Claims_Issuer_and_Subject:
  assumes "Valid tok (Now (profile_client ctx tok w))"
    and "upstream_answer ctx tok w = (n, Inr res)"
    and "StatusCode res = 200"
    and "Decode_LinkedInProfile zero_LinkedInProfile (Body res) = Inr p"
  shows "\<exists>c. fst (Claims ctx tok q w) = Return (Inr c) \<and>
           Issuer c = ''https://login.linkedin.com/'' \<and> Issuer c \<noteq> '''' \<and>
           Subject c = ID p \<and> (Subject c \<noteq> '''') = (ID p \<noteq> '''')"
  using Claims_decoded [where q = q, OF assms(2) logUpstreamError_200 [OF assms(3)] assms(4)]
  by simp

text \<open>The payload of the scenario at the example provider, with its valid token.\<close>

theorem Claims_Issuer_and_Subject_witness:
  "Valid example_token (Now (profile_client (Incoming 0) example_token
       (example_world 1 (ok (example_payload (JBool True)))))) \<and>
   upstream_answer (Incoming 0) example_token
       (example_world 1 (ok (example_payload (JBool True)))) =
     (1, Inr \<lparr>StatusCode = 200, Body = JSON (example_payload (JBool True))\<rparr>) \<and>
   StatusCode \<lparr>StatusCode = 200, Body = JSON (example_payload (JBool True))\<rparr> = 200 \<and>
   (\<exists>c. fst (Claims (Incoming 0) example_token []
           (example_world 1 (ok (example_payload (JBool True))))) = Return (Inr c) \<and>
        Issuer c = ''https://login.linkedin.com/'' \<and> Issuer c \<noteq> '''' \<and>
        Subject c = ''abc123'' \<and> Subject c \<noteq> '''')"
proof -
  let ?res = "\<lparr>StatusCode = 200, Body = JSON (example_payload (JBool True))\<rparr>"
  have v: "Valid example_token (Now (profile_client (Incoming 0) example_token
       (example_world (Suc 0) (ok (example_payload (JBool True))))))"
    by (rule example_token_valid)
  have a: "upstream_answer (Incoming 0) example_token
      (example_world (Suc 0) (ok (example_payload (JBool True)))) = (Suc 0, Inr ?res)"
    using example_answer_ok [of "Incoming 0" "example_payload (JBool True)"]
    by (simp add: ok_def)
  have s: "StatusCode ?res = 200" by simp
  have d: "Decode_LinkedInProfile zero_LinkedInProfile (Body ?res) =
      Inr \<lparr>LocalizedLastName = ''Lee'', LocalizedFirstName = ''Ann'',
          ProfilePicture = ''http://img'', EmailAddress = ''a@example.com'',
          EmailVerified = True, ID = ''abc123'', Locale = Some \<lparr>Lanuguage = ''en-US''\<rparr>\<rparr>"
    by (simp add: decode_example_payload_bool)
  show ?thesis
    using Claims_Issuer_and_Subject [where q = "[]", OF v a s d] a v by simp
qed

text \<open>
  C7 as stated fails: with a valid token, the HTTP 200 answer with the body \<open>{}\<close> decodes,
  and the claims returned have the empty Subject.
\<close>

theorem Claims_empty_object_empty_Subject:
  "fst (Claims (Incoming 0) example_token [] (example_world 1 (ok (JObject [])))) =
     Return (Inr \<lparr>Subject = '''', Issuer = ''https://login.linkedin.com/'', Email = '''',
       EmailVerified = False, GivenName = '''', LastName = '''', Picture = '''',
       Locale = ''''\<rparr>)"
proof -
  have a: "upstream_answer (Incoming 0) example_token
      (example_world (Suc 0) (ok (JObject []))) =
      (Suc 0, Inr \<lparr>StatusCode = 200, Body = JSON (JObject [])\<rparr>)"
    using example_answer_ok [of "Incoming 0" "JObject []"] by (simp add: ok_def)
  have d: "Decode_LinkedInProfile zero_LinkedInProfile
      (Body \<lparr>StatusCode = 200, Body = JSON (JObject [])\<rparr>) = Inr zero_LinkedInProfile"
    by simp
  show ?thesis
    using Claims_decoded [where q = "[]", OF a _ d]
    by (simp add: logUpstreamError_def zero_LinkedInProfile_def)
qed

text \<open>
  C8. For every context, \<open>OAuth2\<close> returns the settings with a nil error: the client ID and
  secret and the scopes of the configuration, the LinkedIn endpoints, and the redirect URL
  computed from the base URL of the context. It has no path that returns an error.
\<close>

theorem OAuth2_returns_settings:
  "fst (OAuth2 ctx w) =
     Inr \<lparr>oauth2_Config.ClientID = Configuration.ClientID (config (self w)),
          oauth2_Config.ClientSecret = Configuration.ClientSecret (config (self w)),
          Endpoint = linkedin_Endpoint,
          Scopes = Scope (config (self w)),
          RedirectURL = Redir (config (self w)) (OIDCRedirectURIBase (reg (self w)) ctx)\<rparr>"
  by (simp add: OAuth2_def oauth2_def)

text \<open>
  C9. Every operation of the provider (Config, OAuth2, AuthCodeURLOptions, Profile,
  Claims) leaves the receiver as it was: the fields \<open>config\<close> and \<open>reg\<close> after the call are
  those before it, so a later call of \<open>Config\<close> returns the same configuration.
\<close>

theorem operations_leave_provider_unchanged:
  "self (snd (Config w)) = self w \<and>
   self (snd (OAuth2 ctx w)) = self w \<and>
   self (snd (AuthCodeURLOptions r w)) = self w \<and>
   self (snd (Profile ctx c w)) = self w \<and>
   self (snd (Claims ctx tok q w)) = self w \<and>
   fst (Config (snd (Claims ctx tok q w))) = fst (Config w)"
  by (simp add: Config_def OAuth2_eq AuthCodeURLOptions_def self_Profile self_Claims)

text \<open>
  C10. For every request, \<open>AuthCodeURLOptions\<close> returns the empty list of extra parameters
  of the authorization URL.
\<close>

theorem AuthCodeURLOptions_empty:
  "fst (AuthCodeURLOptions r w) = []"
  by (simp add: AuthCodeURLOptions_def)






text \<open>
  C6, as amended. Every error \<open>Claims\<close> returns is \<open>herodot.ErrInternalServerError\<close> under a
  stack trace: code 500, status "Internal Server Error" and the one generic message. Its
  reason is \<open>err.Error()\<close> of the error \<open>Profile\<close> returned. For a response that is not a
  success that text is the generic message of the upstream error, and nothing of the
  response is in it. When the client has failed (a transport failure, its retries used up)
  it is the text of the error of the client, and when the body does not decode it is the
  text of the decoding error: in these two cases the detail reaches the caller in the
  reason. The error under the reason is recorded on the span of \<open>fetch\<close>, and the error
  returned on the span of \<open>Claims\<close>. (\<open>OAuth2\<close> has no failure, so every failure is one of the
  fetch.)
\<close>

theorem Claims_failure_is_internal_server_error:
  assumes "fst (Claims ctx tok q w) = Return (Inl e)"
  shows "\<exists>u. e = WithStack (Herodot (DefaultError 500 ''Internal Server Error''
                ''An internal server error occurred, please contact the system administrator''
                (Error_str u))) \<and>
             Reason e = Some (Error_str u) \<and>
             SpanEnd fetch_span (Some u) \<in> set (events (snd (Claims ctx tok q w))) \<and>
             last (events (snd (Claims ctx tok q w))) = SpanEnd Claims_span (Some e) \<and>
             (case snd (upstream_answer ctx tok w) of
                Inl e0 \<Rightarrow> Error_str u = Error_str e0
              | Inr res \<Rightarrow>
                  if 200 \<le> StatusCode res \<and> StatusCode res < 300 then
                    \<exists>je. Decode_LinkedInProfile zero_LinkedInProfile (Body res) = Inl je \<and>
                         Error_str u = json_error_text je
                  else
                    Error_str u =
                      ''An upstream server encountered an error or returned a malformed or unexpected response.'')"
proof -
  obtain n r where a: "upstream_answer ctx tok w = (n, r)"
    by (cases "upstream_answer ctx tok w")
  let ?tail = "case r of
      Inl e0 \<Rightarrow> (\<lambda>u. Error_str u = Error_str e0)
    | Inr res \<Rightarrow> (\<lambda>u.
        if 200 \<le> StatusCode res \<and> StatusCode res < 300 then
          \<exists>je. Decode_LinkedInProfile zero_LinkedInProfile (Body res) = Inl je \<and>
               Error_str u = json_error_text je
        else
          Error_str u =
            ''An upstream server encountered an error or returned a malformed or unexpected response.'')"
  have "\<exists>u pre. Claims ctx tok q w =
        (Return (Inl (internal (WithStack u))),
         w\<lparr>events := events w @ pre @
            [SpanEnd fetch_span (Some u), SpanEnd Claims_span (Some (internal (WithStack u)))]\<rparr>)
        \<and> ?tail u"
  proof (cases r)
    case (Inl e0)
    show ?thesis
      using Claims_transport_error [where q = q, OF a [unfolded Inl]] Inl
      by (intro exI [of _ "WithStack e0"]
          exI [of _ "[SpanStart Claims_span, SpanStart fetch_span,
                      ClientDo (profile_request ctx tok) n]"]) simp
  next
    case (Inr res)
    note a' = a [unfolded Inr]
    show ?thesis
    proof (cases "200 \<le> StatusCode res \<and> StatusCode res < 300")
      case False
      have l: "logUpstreamError res = Some (UpstreamError (StatusCode res))"
        using False by (rule logUpstreamError_non_2xx)
      show ?thesis
        using Claims_upstream_error [where q = q, OF a' l] Inr
        by (intro exI [of _ "UpstreamError (StatusCode res)"]
            exI [of _ "[SpanStart Claims_span, SpanStart fetch_span,
                        ClientDo (profile_request ctx tok) n, BodyClose]"])
          (simp add: ErrUpstreamError_def if_not_P [OF False])
    next
      case True
      then have l: "logUpstreamError res = None"
        by (simp add: logUpstreamError_def)
      show ?thesis
      proof (cases "Decode_LinkedInProfile zero_LinkedInProfile (Body res)")
        case (Inl je)
        show ?thesis
          using Claims_decode_error [where q = q, OF a' l Inl] Inr True Inl
          by (intro exI [of _ "WithStack (JSONError je)"]
              exI [of _ "[SpanStart Claims_span, SpanStart fetch_span,
                          ClientDo (profile_request ctx tok) n, JSONDecode, BodyClose]"]) simp
      next
        case (Inr p)
        show ?thesis
          using Claims_decoded [where q = q, OF a' l Inr] assms by simp
      qed
    qed
  qed
  then obtain u pre where c: "Claims ctx tok q w =
        (Return (Inl (internal (WithStack u))),
         w\<lparr>events := events w @ pre @
            [SpanEnd fetch_span (Some u), SpanEnd Claims_span (Some (internal (WithStack u)))]\<rparr>)"
    and t: "?tail u"
    by blast
  then have e: "e = internal (WithStack u)"
    using assms by simp
  have t': "case snd (upstream_answer ctx tok w) of
                Inl e0 \<Rightarrow> Error_str u = Error_str e0
              | Inr res \<Rightarrow>
                  if 200 \<le> StatusCode res \<and> StatusCode res < 300 then
                    \<exists>je. Decode_LinkedInProfile zero_LinkedInProfile (Body res) = Inl je \<and>
                         Error_str u = json_error_text je
                  else
                    Error_str u =
                      ''An upstream server encountered an error or returned a malformed or unexpected response.''"
    using t a by (cases r) simp_all
  show ?thesis
    using t' by (intro exI [of _ u]) (simp add: c e internal_eq)
qed

text \<open>A 404 at the example provider: the reason is the generic message.\<close>

theorem Claims_failure_is_internal_server_error_witness:
  "fst (Claims (Incoming 0) example_token [] (example_world 1 (status_only 404))) =
     Return (Inl (internal (WithStack (UpstreamError 404)))) \<and>
   Reason (internal (WithStack (UpstreamError 404))) =
     Some ''An upstream server encountered an error or returned a malformed or unexpected response.'' \<and>
   last (events (snd (Claims (Incoming 0) example_token []
          (example_world 1 (status_only 404))))) =
     SpanEnd Claims_span (Some (internal (WithStack (UpstreamError 404))))"
proof -
  let ?w4 = "example_world (Suc 0) (status_only 404)"
  have a4: "upstream_answer (Incoming 0) example_token ?w4 =
      (Suc 0, Inr \<lparr>StatusCode = 404, Body = NotJSON ''EOF''\<rparr>)"
    unfolding status_only_def by (rule example_answer) (simp add: retried_status_def)
  have l4: "logUpstreamError \<lparr>StatusCode = 404, Body = NotJSON ''EOF''\<rparr> =
      Some (UpstreamError 404)"
    by (simp add: logUpstreamError_def)
  have h: "fst (Claims (Incoming 0) example_token [] ?w4) =
      Return (Inl (internal (WithStack (UpstreamError 404))))"
    using Claims_upstream_error [where q = "[]", OF a4 l4] by simp
  obtain u where u: "Reason (internal (WithStack (UpstreamError 404))) = Some (Error_str u)"
    and s: "last (events (snd (Claims (Incoming 0) example_token [] ?w4))) =
      SpanEnd Claims_span (Some (internal (WithStack (UpstreamError 404))))"
    and t: "case snd (upstream_answer (Incoming 0) example_token ?w4) of
                Inl e0 \<Rightarrow> Error_str u = Error_str e0
              | Inr res \<Rightarrow>
                  if 200 \<le> StatusCode res \<and> StatusCode res < 300 then
                    \<exists>je. Decode_LinkedInProfile zero_LinkedInProfile (Body res) = Inl je \<and>
                         Error_str u = json_error_text je
                  else
                    Error_str u =
                      ''An upstream server encountered an error or returned a malformed or unexpected response.''"
    using Claims_failure_is_internal_server_error [OF h] by blast
  have "Error_str u =
      ''An upstream server encountered an error or returned a malformed or unexpected response.''"
    using t by (simp add: a4)
  then show ?thesis
    using h u s by simp
qed

text \<open>
  C6 as stated fails: when the endpoint cannot be reached and the client gives up, the
  text of its error, with the address it could not resolve, is the reason of the error
  \<open>Claims\<close> returns to its caller.
\<close>

theorem transport_failure_text_reaches_caller:
  "fst (Claims (Incoming 0) example_token []
         (example_world 1 (Inl (Recoverable
            ''dial tcp: lookup api.linkedin.com: no such host'')))) =
     Return (Inl (WithStack (Herodot (DefaultError 500 ''Internal Server Error''
       ''An internal server error occurred, please contact the system administrator''
       (''GET https://api.linkedin.com/v2/userinfo giving up after 5 attempt(s): Get '' @
        [CHR 0x22] @ ''https://api.linkedin.com/v2/userinfo'' @ [CHR 0x22] @
        '': dial tcp: lookup api.linkedin.com: no such host'')))))"
proof -
  let ?r = "Inl (Recoverable ''dial tcp: lookup api.linkedin.com: no such host'')
      :: net_error + response"
  have a: "upstream_answer (Incoming 0) example_token (example_world (Suc 0) ?r) =
      (5, Inl (TransportError (example_give_up 5 ?r)))"
    by (rule example_gives_up) simp
  have g: "example_give_up 5 ?r =
      ''GET https://api.linkedin.com/v2/userinfo giving up after 5 attempt(s): Get '' @
      [CHR 0x22] @ ''https://api.linkedin.com/v2/userinfo'' @ [CHR 0x22] @
      '': dial tcp: lookup api.linkedin.com: no such host''"
    by (simp add: example_give_up_error)
  show ?thesis
    using Claims_transport_error [where q = "[]", OF a]
    by (simp add: internal_eq g)
qed

end
